theory Spec2Isabelle
  imports Complex_Main "HOL-Library.Multiset"
begin

section \<open>JavaScript numbers\<close>

text \<open>
  A JavaScript \<^verbatim>\<open>number\<close> is either finite, one of the two infinities, or NaN.
  Finite values are modelled by real numbers: comparisons are exact, and arithmetic is
  the exact arithmetic on the reals (the rounding of IEEE doubles, overflow of a finite
  computation to an infinity and the sign of zero are not modelled).  The non-finite
  values follow the IEEE rules the source relies on: NaN is falsy, compares false with
  everything and is absorbing; dividing a non-zero finite value by zero is an infinity.
\<close>

datatype jsnum = Fin real | PInf | NInf | NaN

fun isFinite :: "jsnum \<Rightarrow> bool" where
  "isFinite (Fin _) = True"
| "isFinite _ = False"

text \<open>Truthiness of a number in \<^verbatim>\<open>x || y\<close>: zero and NaN are falsy.\<close>

fun truthy :: "jsnum \<Rightarrow> bool" where
  "truthy (Fin r) = (r \<noteq> 0)"
| "truthy NaN = False"
| "truthy _ = True"

fun jneg :: "jsnum \<Rightarrow> jsnum" where
  "jneg (Fin r) = Fin (- r)"
| "jneg PInf = NInf"
| "jneg NInf = PInf"
| "jneg NaN = NaN"

fun jadd :: "jsnum \<Rightarrow> jsnum \<Rightarrow> jsnum" where
  "jadd (Fin a) (Fin b) = Fin (a + b)"
| "jadd NaN _ = NaN"
| "jadd _ NaN = NaN"
| "jadd PInf NInf = NaN"
| "jadd NInf PInf = NaN"
| "jadd PInf _ = PInf"
| "jadd _ PInf = PInf"
| "jadd NInf _ = NInf"
| "jadd _ NInf = NInf"

definition jsub :: "jsnum \<Rightarrow> jsnum \<Rightarrow> jsnum" where
  "jsub a b = jadd a (jneg b)"

text \<open>The sign of a non-NaN number: \<open>-1\<close>, \<open>0\<close> or \<open>1\<close>.\<close>

fun jsign :: "jsnum \<Rightarrow> int" where
  "jsign (Fin r) = (if r < 0 then - 1 else if r = 0 then 0 else 1)"
| "jsign PInf = 1"
| "jsign NInf = - 1"
| "jsign NaN = 0"

definition signedInf :: "int \<Rightarrow> jsnum" where
  "signedInf s = (if s < 0 then NInf else if s = 0 then NaN else PInf)"

fun jmul :: "jsnum \<Rightarrow> jsnum \<Rightarrow> jsnum" where
  "jmul (Fin a) (Fin b) = Fin (a * b)"
| "jmul NaN _ = NaN"
| "jmul _ NaN = NaN"
| "jmul a b = signedInf (jsign a * jsign b)"

fun jdiv :: "jsnum \<Rightarrow> jsnum \<Rightarrow> jsnum" where
  "jdiv (Fin a) (Fin b) = (if b = 0 then signedInf (jsign (Fin a)) else Fin (a / b))"
| "jdiv NaN _ = NaN"
| "jdiv _ NaN = NaN"
| "jdiv (Fin a) _ = Fin 0"
| "jdiv a (Fin b) = signedInf (jsign a * (if b < 0 then - 1 else 1))"
| "jdiv _ _ = NaN"

text \<open>\<^verbatim>\<open>Math.round\<close>: the nearest integer, ties towards positive infinity.\<close>

fun jround :: "jsnum \<Rightarrow> jsnum" where
  "jround (Fin r) = Fin (of_int \<lfloor>r + 1 / 2\<rfloor>)"
| "jround x = x"

fun jlt :: "jsnum \<Rightarrow> jsnum \<Rightarrow> bool" where
  "jlt NaN _ = False"
| "jlt _ NaN = False"
| "jlt (Fin a) (Fin b) = (a < b)"
| "jlt _ NInf = False"
| "jlt NInf _ = True"
| "jlt PInf _ = False"
| "jlt _ PInf = True"

fun jge :: "jsnum \<Rightarrow> jsnum \<Rightarrow> bool" where
  "jge NaN _ = False"
| "jge _ NaN = False"
| "jge a b = (\<not> jlt a b)"

definition jgt :: "jsnum \<Rightarrow> jsnum \<Rightarrow> bool" where
  "jgt a b = jlt b a"

definition jle :: "jsnum \<Rightarrow> jsnum \<Rightarrow> bool" where
  "jle a b = jge b a"

text \<open>\<^verbatim>\<open>x || d\<close> on numbers where \<open>x\<close> may be \<^verbatim>\<open>undefined\<close>.\<close>

fun orDefault :: "jsnum option \<Rightarrow> jsnum \<Rightarrow> jsnum" where
  "orDefault None d = d"
| "orDefault (Some x) d = (if truthy x then x else d)"



section \<open>Level of detail of a map pin\<close>

datatype lodClass = LodLow | LodMedium | LodHigh

record pinLodState =
  isLogoOnly :: bool
  isCompactLogo :: bool
  isFullDetail :: bool
  lodClass :: lodClass

definition LOD_LOGO_ONLY_THRESHOLD :: jsnum where
  "LOD_LOGO_ONLY_THRESHOLD = Fin (12 / 10)"

definition LOD_FULL_DETAIL_THRESHOLD :: jsnum where
  "LOD_FULL_DETAIL_THRESHOLD = Fin (25 / 10)"

definition getPinLodState :: "jsnum \<Rightarrow> bool \<Rightarrow> pinLodState" where
  "getPinLodState zoomFactor isSelected =
     (let isLogoOnly0 = jlt zoomFactor LOD_LOGO_ONLY_THRESHOLD;
          isCompactLogo0 =
            (jge zoomFactor LOD_LOGO_ONLY_THRESHOLD \<and> jlt zoomFactor LOD_FULL_DETAIL_THRESHOLD);
          isFullDetail0 = jge zoomFactor LOD_FULL_DETAIL_THRESHOLD;
          isLogoOnly1 = (if isSelected then False else isLogoOnly0);
          isCompactLogo1 = (if isSelected then False else isCompactLogo0);
          isFullDetail1 = (if isSelected then True else isFullDetail0);
          lodClass1 = (if isFullDetail1 then LodHigh
                       else if isCompactLogo1 then LodMedium else LodLow)
      in \<lparr>isLogoOnly = isLogoOnly1, isCompactLogo = isCompactLogo1,
          isFullDetail = isFullDetail1, lodClass = lodClass1\<rparr>)"


section \<open>Hierarchy data model\<close>

text \<open>
  The entity records carry the fields the store reads and writes.  Optional fields of
  the TypeScript interfaces are options; a string is truthy when it is not empty.
\<close>

record coordinates =
  latitude :: jsnum
  longitude :: jsnum

record factoryLocation =
  fac_id :: string
  fac_parentGroupId :: string
  fac_subsidiaryId :: string
  fac_name :: string
  fac_city :: string
  fac_country :: string
  fac_coordinates :: "coordinates option"
  fac_assets :: "jsnum option"
  fac_incidents :: jsnum
  fac_syncStability :: jsnum
  fac_status :: string
  fac_description :: string

section \<open>Center of gravity\<close>

definition isValidCoordinates :: "coordinates option \<Rightarrow> bool" where
  "isValidCoordinates coords =
     (case coords of
        None \<Rightarrow> False
      | Some c \<Rightarrow>
          if \<not> isFinite (latitude c) \<or> \<not> isFinite (longitude c) then False
          else if latitude c = Fin 0 \<and> longitude c = Fin 0 then False
          else True)"

text \<open>
  Reading \<^verbatim>\<open>factory.coordinates.latitude\<close>; the source only does so after the
  validity filter, where the coordinates are present.
\<close>

definition coordLat :: "factoryLocation \<Rightarrow> jsnum" where
  "coordLat f = (case fac_coordinates f of Some c \<Rightarrow> latitude c | None \<Rightarrow> NaN)"

definition coordLng :: "factoryLocation \<Rightarrow> jsnum" where
  "coordLng f = (case fac_coordinates f of Some c \<Rightarrow> longitude c | None \<Rightarrow> NaN)"

definition computeCenterOfGravity :: "factoryLocation list \<Rightarrow> coordinates" where
  "computeCenterOfGravity factories =
     (let validFactories = filter (\<lambda>factory. isValidCoordinates (fac_coordinates factory)) factories
      in if length validFactories = 0 then \<lparr>latitude = NaN, longitude = NaN\<rparr>
         else
           let totalWeight =
                 foldl (\<lambda>sum factory. jadd sum (orDefault (fac_assets factory) (Fin 1)))
                   (Fin 0) validFactories;
               weightedLat =
                 foldl (\<lambda>sum factory.
                          jadd sum (jmul (coordLat factory) (orDefault (fac_assets factory) (Fin 1))))
                   (Fin 0) validFactories;
               weightedLng =
                 foldl (\<lambda>sum factory.
                          jadd sum (jmul (coordLng factory) (orDefault (fac_assets factory) (Fin 1))))
                   (Fin 0) validFactories
           in \<lparr>latitude = jdiv weightedLat totalWeight,
               longitude = jdiv weightedLng totalWeight\<rparr>)"

subsection \<open>The centroid as the specification words it\<close>

text \<open>
  A factory takes part in the centroid when its coordinates are present, finite and
  not exactly \<open>(0, 0)\<close>.
\<close>

definition hasUsableCoordinates :: "factoryLocation \<Rightarrow> bool" where
  "hasUsableCoordinates f =
     (case fac_coordinates f of
        None \<Rightarrow> False
      | Some c \<Rightarrow>
          (case (latitude c, longitude c) of
             (Fin a, Fin b) \<Rightarrow> \<not> (a = 0 \<and> b = 0)
           | _ \<Rightarrow> False))"

text \<open>
  An asset count can be weighed when it is not one of the two infinities: it is a finite
  number, or it is missing or not a number.  It is a proper count when it is a
  non-negative finite number, or missing.
\<close>

definition isFiniteCount :: "jsnum option \<Rightarrow> bool" where
  "isFiniteCount a = (a \<noteq> Some PInf \<and> a \<noteq> Some NInf)"

definition isAssetCount :: "jsnum option \<Rightarrow> bool" where
  "isAssetCount a = (case a of None \<Rightarrow> True | Some (Fin r) \<Rightarrow> 0 \<le> r | Some _ \<Rightarrow> False)"

text \<open>The weight of a factory: its asset count, or 1 when that is zero, missing or not a
  number.\<close>

definition assetWeight :: "factoryLocation \<Rightarrow> real" where
  "assetWeight f = (case fac_assets f of Some (Fin r) \<Rightarrow> (if r = 0 then 1 else r) | _ \<Rightarrow> 1)"

definition latOf :: "factoryLocation \<Rightarrow> real" where
  "latOf f = (case coordLat f of Fin r \<Rightarrow> r | _ \<Rightarrow> 0)"

definition lngOf :: "factoryLocation \<Rightarrow> real" where
  "lngOf f = (case coordLng f of Fin r \<Rightarrow> r | _ \<Rightarrow> 0)"

definition weightedAverage :: "(factoryLocation \<Rightarrow> real) \<Rightarrow> factoryLocation list \<Rightarrow> real" where
  "weightedAverage v fs =
     (\<Sum>f\<leftarrow>fs. v f * assetWeight f) / (\<Sum>f\<leftarrow>fs. assetWeight f)"

definition specCenter :: "factoryLocation list \<Rightarrow> coordinates" where
  "specCenter fs =
     (let usable = filter hasUsableCoordinates fs
      in if usable = [] then \<lparr>latitude = NaN, longitude = NaN\<rparr>
         else \<lparr>latitude = Fin (weightedAverage latOf usable),
               longitude = Fin (weightedAverage lngOf usable)\<rparr>)"

text \<open>The two factories of the specification's example.\<close>

definition exampleFactoryOrigin :: factoryLocation where
  "exampleFactoryOrigin =
     \<lparr>fac_id = ''f0'', fac_parentGroupId = ''g'', fac_subsidiaryId = ''s'', fac_name = ''Origin'',
      fac_city = [], fac_country = [],
      fac_coordinates = Some \<lparr>latitude = Fin 0, longitude = Fin 0\<rparr>,
      fac_assets = Some (Fin 3), fac_incidents = Fin 0, fac_syncStability = Fin 0,
      fac_status = ''ACTIVE'', fac_description = []\<rparr>"

definition exampleFactoryPlaced :: factoryLocation where
  "exampleFactoryPlaced =
     \<lparr>fac_id = ''f1'', fac_parentGroupId = ''g'', fac_subsidiaryId = ''s'', fac_name = ''Placed'',
      fac_city = [], fac_country = [],
      fac_coordinates = Some \<lparr>latitude = Fin 10, longitude = Fin 20\<rparr>,
      fac_assets = Some (Fin 5), fac_incidents = Fin 0, fac_syncStability = Fin 0,
      fac_status = ''ACTIVE'', fac_description = []\<rparr>"

text \<open>Two factories with usable coordinates whose asset counts cancel.\<close>

definition exampleFactoryUnit :: factoryLocation where
  "exampleFactoryUnit = exampleFactoryPlaced\<lparr>fac_assets := Some (Fin 1)\<rparr>"

definition exampleFactoryDebit :: factoryLocation where
  "exampleFactoryDebit =
     exampleFactoryPlaced
       \<lparr>fac_id := ''f2'',
        fac_coordinates := Some \<lparr>latitude = Fin 30, longitude = Fin 40\<rparr>,
        fac_assets := Some (Fin (- 1))\<rparr>"


section \<open>The store\<close>

text \<open>
  A hub has a code and a status; a partial update of a hub names the fields it
  replaces.  The metrics of a subsidiary and of a parent group are stored fields.
\<close>

record hub =
  hub_code :: string
  hub_status :: string

record metrics =
  assetCount :: jsnum
  incidentCount :: jsnum
  syncStability :: jsnum

record subsidiaryCompany =
  sub_id :: string
  sub_parentGroupId :: string
  sub_name :: string
  sub_location :: string
  sub_description :: string
  sub_status :: string
  sub_hubs :: "hub list"
  sub_factories :: "factoryLocation list"
  sub_metrics :: metrics

record parentGroup =
  grp_id :: string
  grp_name :: string
  grp_status :: string
  grp_subsidiaries :: "subsidiaryCompany list"
  grp_metrics :: metrics

text \<open>
  \<^verbatim>\<open>MapViewMode\<close> and the level tag of a \<^verbatim>\<open>FleetSelection\<close> are the same three
  string literals; the source compares one with the other.
\<close>

datatype level = Parent | Subsidiary | Factory

record fleetSelection =
  sel_level :: level
  sel_id :: string
  sel_parentGroupId :: "string option"
  sel_subsidiaryId :: "string option"
  sel_factoryId :: "string option"

text \<open>
  A timestamp arrives as a string or as a \<^verbatim>\<open>Date\<close>; a \<^verbatim>\<open>Date\<close> holds a time value in
  milliseconds or is invalid (its \<^verbatim>\<open>getTime()\<close> is NaN).
\<close>

datatype jsdate = ValidDate int | InvalidDate

datatype timestamp = TsString string | TsDate jsdate

record activityLog =
  log_id :: string
  log_timestamp :: timestamp
  log_factoryId :: string
  log_subsidiaryId :: string
  log_description :: string
  log_location :: string

text \<open>The flat auxiliary records; the store only moves them around whole.\<close>

typedecl transitRoute
typedecl networkMetrics
typedecl networkThroughput
typedecl geopoliticalHeatmap
typedecl satelliteStatus

text \<open>
  One field per signal of the service, and the messages written with
  \<^verbatim>\<open>console.warn\<close>, oldest first.
\<close>

record store =
  parentGroups :: "parentGroup list"
  transitRoutes :: "transitRoute list"
  activityLogs :: "activityLog list"
  networkMetrics :: "networkMetrics option"
  networkThroughput :: "networkThroughput option"
  geopoliticalHeatmap :: "geopoliticalHeatmap option"
  satelliteStatuses :: "satelliteStatus list"
  mapViewMode :: level
  selectedEntity :: "fleetSelection option"
  hoveredEntity :: "fleetSelection option"
  factoryFilterSubsidiaryId :: "string option"
  panToEntity :: "(string \<times> int) option"
  consoleWarnings :: "string list"

definition consoleWarn :: "string \<Rightarrow> store \<Rightarrow> store" where
  "consoleWarn msg st = st\<lparr>consoleWarnings := consoleWarnings st @ [msg]\<rparr>"

subsection \<open>Helpers of the language\<close>

text \<open>\<^verbatim>\<open>Array.prototype.findIndex\<close>, with \<open>None\<close> for \<open>-1\<close>.\<close>

fun findIndex :: "('a \<Rightarrow> bool) \<Rightarrow> 'a list \<Rightarrow> nat option" where
  "findIndex P [] = None"
| "findIndex P (x # xs) = (if P x then Some 0 else map_option Suc (findIndex P xs))"

text \<open>Truthiness of a string, and of an optional string.\<close>

definition truthyStr :: "string \<Rightarrow> bool" where
  "truthyStr s = (s \<noteq> [])"

definition truthyOpt :: "string option \<Rightarrow> bool" where
  "truthyOpt s = (case s of None \<Rightarrow> False | Some v \<Rightarrow> truthyStr v)"

text \<open>\<^verbatim>\<open>a || b\<close> where \<open>a\<close> is an optional string and \<open>b\<close> a string.\<close>

definition orStr :: "string option \<Rightarrow> string \<Rightarrow> string" where
  "orStr a b = (case a of None \<Rightarrow> b | Some v \<Rightarrow> if truthyStr v then v else b)"

text \<open>\<^verbatim>\<open>a || b\<close> where both are optional strings.\<close>

definition orOpt :: "string option \<Rightarrow> string option \<Rightarrow> string option" where
  "orOpt a b = (if truthyOpt a then a else b)"

text \<open>The value of an optional string when it is truthy (\<^verbatim>\<open>if (a) ...\<close>, \<^verbatim>\<open>a || undefined\<close>).\<close>

definition truthyVal :: "string option \<Rightarrow> string option" where
  "truthyVal a = (case a of None \<Rightarrow> None | Some v \<Rightarrow> if truthyStr v then Some v else None)"

text \<open>\<^verbatim>\<open>a ?? b\<close>.\<close>

definition nullish :: "'a option \<Rightarrow> 'a \<Rightarrow> 'a" where
  "nullish a b = (case a of None \<Rightarrow> b | Some v \<Rightarrow> v)"

text \<open>\<^verbatim>\<open>xs[0]\<close>, which is \<^verbatim>\<open>undefined\<close> on an empty array.\<close>

definition first :: "'a list \<Rightarrow> 'a option" where
  "first xs = (case xs of [] \<Rightarrow> None | x # _ \<Rightarrow> Some x)"



subsection \<open>Derived collections\<close>

definition subsidiariesOf :: "parentGroup list \<Rightarrow> subsidiaryCompany list" where
  "subsidiariesOf groups = concat (map grp_subsidiaries groups)"

definition factoriesOf :: "parentGroup list \<Rightarrow> factoryLocation list" where
  "factoriesOf groups = concat (map sub_factories (subsidiariesOf groups))"

definition subsidiaries :: "store \<Rightarrow> subsidiaryCompany list" where
  "subsidiaries st = subsidiariesOf (parentGroups st)"

definition factories :: "store \<Rightarrow> factoryLocation list" where
  "factories st = factoriesOf (parentGroups st)"

subsection \<open>Aggregate metrics\<close>


definition computeMetricsFromSubsidiaries :: "subsidiaryCompany list \<Rightarrow> metrics" where
  "computeMetricsFromSubsidiaries subs =
     (let assetCount1 = foldl (\<lambda>sum sub. jadd sum (assetCount (sub_metrics sub))) (Fin 0) subs;
          incidentCount1 =
            foldl (\<lambda>sum sub. jadd sum (incidentCount (sub_metrics sub))) (Fin 0) subs;
          totalWeight =
            foldl (\<lambda>sum sub. jadd sum (orDefault (Some (assetCount (sub_metrics sub))) (Fin 1)))
              (Fin 0) subs;
          weightedSync =
            foldl (\<lambda>sum sub.
                     jadd sum (jmul (syncStability (sub_metrics sub))
                                 (orDefault (Some (assetCount (sub_metrics sub))) (Fin 1))))
              (Fin 0) subs;
          syncStability1 =
            (if jgt totalWeight (Fin 0)
             then jdiv (jround (jmul (jdiv weightedSync totalWeight) (Fin 10))) (Fin 10)
             else Fin 0)
      in \<lparr>assetCount = assetCount1, incidentCount = incidentCount1,
          syncStability = syncStability1\<rparr>)"

subsection \<open>Selection and view mode\<close>

definition normalizeSelection :: "store \<Rightarrow> fleetSelection \<Rightarrow> fleetSelection option" where
  "normalizeSelection st selection =
     (case sel_level selection of
        Parent \<Rightarrow>
          (case find (\<lambda>group. grp_id group = sel_id selection) (parentGroups st) of
             None \<Rightarrow> None
           | Some parent \<Rightarrow>
               Some \<lparr>sel_level = Parent, sel_id = grp_id parent,
                     sel_parentGroupId = Some (grp_id parent),
                     sel_subsidiaryId = None, sel_factoryId = None\<rparr>)
      | Subsidiary \<Rightarrow>
          (case find (\<lambda>sub. sub_id sub = sel_id selection) (subsidiaries st) of
             None \<Rightarrow> None
           | Some subsidiary \<Rightarrow>
               Some \<lparr>sel_level = Subsidiary, sel_id = sub_id subsidiary,
                     sel_parentGroupId = Some (sub_parentGroupId subsidiary),
                     sel_subsidiaryId = Some (sub_id subsidiary), sel_factoryId = None\<rparr>)
      | Factory \<Rightarrow>
          (case find (\<lambda>fac. fac_id fac = sel_id selection) (factories st) of
             None \<Rightarrow> None
           | Some factory \<Rightarrow>
               Some \<lparr>sel_level = Factory, sel_id = fac_id factory,
                     sel_parentGroupId = Some (fac_parentGroupId factory),
                     sel_subsidiaryId = Some (fac_subsidiaryId factory),
                     sel_factoryId = Some (fac_id factory)\<rparr>))"

definition getFirstFactoryForSelection :: "store \<Rightarrow> fleetSelection \<Rightarrow> factoryLocation option" where
  "getFirstFactoryForSelection st selection =
     (if sel_level selection = Subsidiary then
        (case find (\<lambda>sub. sub_id sub = sel_id selection) (subsidiaries st) of
           None \<Rightarrow> None
         | Some subsidiary \<Rightarrow> first (sub_factories subsidiary))
      else if sel_level selection = Parent then
        (let parentId = orStr (sel_parentGroupId selection) (sel_id selection)
         in case find (\<lambda>group. grp_id group = parentId) (parentGroups st) of
              None \<Rightarrow> None
            | Some parent \<Rightarrow>
                (case first (grp_subsidiaries parent) of
                   None \<Rightarrow> None
                 | Some subsidiary \<Rightarrow> first (sub_factories subsidiary)))
      else None)"

definition setMapViewMode :: "level \<Rightarrow> store \<Rightarrow> store" where
  "setMapViewMode viewMode st0 =
     (let st = st0\<lparr>mapViewMode := viewMode, factoryFilterSubsidiaryId := None\<rparr>
      in case selectedEntity st of
           None \<Rightarrow> st
         | Some selection \<Rightarrow>
             if sel_level selection = viewMode then st
             else if viewMode = Parent then
               (let parentId = orStr (sel_parentGroupId selection) (sel_id selection)
                in if truthyStr parentId
                   then st\<lparr>selectedEntity :=
                          Some \<lparr>sel_level = Parent, sel_id = parentId,
                                sel_parentGroupId = Some parentId,
                                sel_subsidiaryId = None, sel_factoryId = None\<rparr>\<rparr>
                   else st)
             else if viewMode = Subsidiary then
               (let subsidiaryId =
                      orOpt (sel_subsidiaryId selection)
                        (if sel_level selection = Subsidiary then Some (sel_id selection) else None)
                in case truthyVal subsidiaryId of
                     None \<Rightarrow> st
                   | Some subsidiaryId' \<Rightarrow>
                       (let parentId =
                              orOpt (sel_parentGroupId selection)
                                (map_option sub_parentGroupId
                                   (find (\<lambda>sub. sub_id sub = subsidiaryId') (subsidiaries st)))
                        in st\<lparr>selectedEntity :=
                              Some \<lparr>sel_level = Subsidiary, sel_id = subsidiaryId',
                                    sel_parentGroupId = truthyVal parentId,
                                    sel_subsidiaryId = Some subsidiaryId',
                                    sel_factoryId = None\<rparr>\<rparr>))
             else
               (if sel_level selection = Subsidiary then st
                else
                  (case truthyVal (sel_factoryId selection) of
                     Some factoryId \<Rightarrow>
                       st\<lparr>selectedEntity :=
                            Some \<lparr>sel_level = Factory, sel_id = factoryId,
                                  sel_parentGroupId = sel_parentGroupId selection,
                                  sel_subsidiaryId = sel_subsidiaryId selection,
                                  sel_factoryId = Some factoryId\<rparr>\<rparr>
                   | None \<Rightarrow>
                       (case getFirstFactoryForSelection st selection of
                          None \<Rightarrow> st
                        | Some fallbackFactory \<Rightarrow>
                            st\<lparr>selectedEntity :=
                                 Some \<lparr>sel_level = Factory, sel_id = fac_id fallbackFactory,
                                       sel_parentGroupId = Some (fac_parentGroupId fallbackFactory),
                                       sel_subsidiaryId = Some (fac_subsidiaryId fallbackFactory),
                                       sel_factoryId = Some (fac_id fallbackFactory)\<rparr>\<rparr>))))"

definition selectEntity :: "fleetSelection option \<Rightarrow> store \<Rightarrow> store" where
  "selectEntity selection st =
     (case selection of
        None \<Rightarrow> st\<lparr>selectedEntity := None\<rparr>
      | Some sel \<Rightarrow>
          if sel_level sel = Subsidiary \<and> mapViewMode st \<noteq> Subsidiary then st
          else
            (let normalized = normalizeSelection st sel;
                 st1 = st\<lparr>selectedEntity := normalized\<rparr>
             in case normalized of
                  None \<Rightarrow> st1
                | Some n \<Rightarrow>
                    (let currentViewMode = mapViewMode st1
                     in if \<not> (sel_level n = Factory \<and> currentViewMode = Subsidiary)
                        then st1\<lparr>mapViewMode := sel_level n\<rparr>
                        else st1)))"

subsection \<open>Activity log\<close>

text \<open>
  \<^verbatim>\<open>new Date(string)\<close> is the runtime's date parser; it is a parameter \<open>parseDate\<close> of
  the model.
\<close>

definition toDate :: "(string \<Rightarrow> jsdate) \<Rightarrow> timestamp \<Rightarrow> jsdate" where
  "toDate parseDate ts = (case ts of TsString s \<Rightarrow> parseDate s | TsDate d \<Rightarrow> d)"

fun getTime :: "jsdate \<Rightarrow> jsnum" where
  "getTime (ValidDate t) = Fin (of_int t)"
| "getTime InvalidDate = NaN"

definition compareLogs :: "(string \<Rightarrow> jsdate) \<Rightarrow> activityLog \<Rightarrow> activityLog \<Rightarrow> jsnum" where
  "compareLogs parseDate a b =
     (let dateA = toDate parseDate (log_timestamp a);
          dateB = toDate parseDate (log_timestamp b)
      in jsub (getTime dateB) (getTime dateA))"

text \<open>
  \<^verbatim>\<open>Array.prototype.sort\<close> with a comparator: the sort is stable, an element goes behind
  another only when the comparator is positive, and a NaN result counts as zero.  Every
  stable sort gives the same list when the comparator is consistent; when it is not
  (invalid dates), the order is up to the runtime and the model fixes insertion from
  the right.
\<close>

fun insertBy :: "('a \<Rightarrow> 'a \<Rightarrow> jsnum) \<Rightarrow> 'a \<Rightarrow> 'a list \<Rightarrow> 'a list" where
  "insertBy cmp x [] = [x]"
| "insertBy cmp x (y # ys) =
     (if jgt (cmp x y) (Fin 0) then y # insertBy cmp x ys else x # y # ys)"

definition arraySort :: "('a \<Rightarrow> 'a \<Rightarrow> jsnum) \<Rightarrow> 'a list \<Rightarrow> 'a list" where
  "arraySort cmp xs = foldr (insertBy cmp) xs []"

definition addActivityLog :: "(string \<Rightarrow> jsdate) \<Rightarrow> activityLog \<Rightarrow> store \<Rightarrow> store" where
  "addActivityLog parseDate newLog st =
     (let currentLogs = activityLogs st;
          filteredLogs = filter (\<lambda>l. log_factoryId l \<noteq> log_factoryId newLog) currentLogs;
          updatedLogs = newLog # filteredLogs;
          sortedLogs = take 40 (arraySort (compareLogs parseDate) updatedLogs)
      in st\<lparr>activityLogs := sortedLogs\<rparr>)"


section \<open>Location input\<close>

text \<open>
  Strings are lists of 8-bit characters, the code units 0 to 255.  Digits are the ASCII
  digits, as \<^verbatim>\<open>\d\<close> has them.  White space, for \<^verbatim>\<open>\s\<close> and for \<^verbatim>\<open>trim\<close> alike, is
  tab, line feed, vertical tab, form feed, carriage return (9 to 13), space (32) and
  no-break space (160); the other white space characters of the language lie above 255.
\<close>

definition isDigit :: "char \<Rightarrow> bool" where
  "isDigit c = (48 \<le> (of_char c :: nat) \<and> (of_char c :: nat) \<le> 57)"

definition isSpace :: "char \<Rightarrow> bool" where
  "isSpace c =
     ((of_char c :: nat) = 32 \<or> (9 \<le> (of_char c :: nat) \<and> (of_char c :: nat) \<le> 13)
      \<or> (of_char c :: nat) = 160)"

definition trim :: "string \<Rightarrow> string" where
  "trim s = rev (dropWhile isSpace (rev (dropWhile isSpace s)))"

text \<open>
  \<^verbatim>\<open>toLowerCase\<close>: the upper-case letters among these characters are the ASCII ones (65
  to 90) and the accented ones from 192 to 222 without the multiplication sign (215);
  each has its lower-case form 32 places further.
\<close>

definition isUpperLetter :: "char \<Rightarrow> bool" where
  "isUpperLetter c =
     ((65 \<le> (of_char c :: nat) \<and> (of_char c :: nat) \<le> 90)
      \<or> (192 \<le> (of_char c :: nat) \<and> (of_char c :: nat) \<le> 222 \<and> (of_char c :: nat) \<noteq> 215))"

definition toLowerChar :: "char \<Rightarrow> char" where
  "toLowerChar c = (if isUpperLetter c then char_of ((of_char c :: nat) + 32) else c)"

definition toLowerCase :: "string \<Rightarrow> string" where
  "toLowerCase s = map toLowerChar s"

text \<open>\<^verbatim>\<open>s.split(c)\<close>, \<^verbatim>\<open>parts.join(sep)\<close> and \<^verbatim>\<open>s.includes(t)\<close>.\<close>

fun splitOn :: "char \<Rightarrow> string \<Rightarrow> string list" where
  "splitOn c [] = [[]]"
| "splitOn c (x # xs) =
     (if x = c then [] # splitOn c xs
      else (case splitOn c xs of [] \<Rightarrow> [[x]] | p # ps \<Rightarrow> (x # p) # ps))"

fun joinWith :: "string \<Rightarrow> string list \<Rightarrow> string" where
  "joinWith sep [] = []"
| "joinWith sep [p] = p"
| "joinWith sep (p # q # ps) = p @ sep @ joinWith sep (q # ps)"

fun strIncludes :: "string \<Rightarrow> string \<Rightarrow> bool" where
  "strIncludes [] t = (t = [])"
| "strIncludes (h # hs) t = (take (length t) (h # hs) = t \<or> strIncludes hs t)"

subsection \<open>The coordinate pattern\<close>

text \<open>
  The longest prefix of the form \<^verbatim>\<open>-?\d+\.?\d*\<close>, with what follows it.  The regular
  expression \<^verbatim>\<open>/^(-?\d+\.?\d*)\s*,\s*(-?\d+\.?\d*)$/\<close> has no match that takes a
  shorter number: after a shorter one comes a digit or a dot, where the expression wants
  white space, a comma or the end.  So matching it is reading a number, white space, a
  comma, white space, a number, and the end.
\<close>

definition takeNumber :: "string \<Rightarrow> (string \<times> string) option" where
  "takeNumber s =
     (let sign = (case s of c # cs \<Rightarrow> if c = CHR ''-'' then [c] else [] | [] \<Rightarrow> []);
          r1 = drop (length sign) s;
          ds = takeWhile isDigit r1;
          r2 = dropWhile isDigit r1
      in if ds = [] then None
         else
           (let dot = (case r2 of c # cs \<Rightarrow> if c = CHR ''.'' then [c] else [] | [] \<Rightarrow> []);
                r3 = drop (length dot) r2;
                fs = takeWhile isDigit r3;
                r4 = dropWhile isDigit r3
            in Some (sign @ ds @ dot @ fs, r4)))"

definition matchCoordinates :: "string \<Rightarrow> (string \<times> string) option" where
  "matchCoordinates s =
     (case takeNumber s of
        None \<Rightarrow> None
      | Some (g1, r) \<Rightarrow>
          (case dropWhile isSpace r of
             [] \<Rightarrow> None
           | c # r2 \<Rightarrow>
               if c = CHR '','' then
                 (case takeNumber (dropWhile isSpace r2) of
                    None \<Rightarrow> None
                  | Some (g2, rest) \<Rightarrow> if rest = [] then Some (g1, g2) else None)
               else None))"

subsection \<open>Geocoding\<close>

text \<open>
  A geocoding request is identified by the name it asks for (the rest of the URL is
  fixed).  The service is a parameter of the model; a request fails (it throws, times
  out, or its body does not parse), answers with a status that is not OK, or answers
  with the optional list \<^verbatim>\<open>results\<close>.
\<close>

record geoResult =
  geo_latitude :: jsnum
  geo_longitude :: jsnum
  geo_name :: string
  geo_admin1 :: "string option"
  geo_country :: "string option"

datatype fetchOutcome = FetchFailed | FetchNotOk | FetchOk "geoResult list option"

datatype locationError = InvalidCoordinatesRange | NoGeocodingResults

definition geoCoordinates :: "geoResult \<Rightarrow> coordinates" where
  "geoCoordinates r = \<lparr>latitude = geo_latitude r, longitude = geo_longitude r\<rparr>"

text \<open>\<^verbatim>\<open>fetchGeocodingResult\<close>: \<open>None\<close> stands for both \<^verbatim>\<open>null\<close> and a thrown error,
  which the only caller treats alike.\<close>

definition fetchGeocodingResult :: "(string \<Rightarrow> fetchOutcome) \<Rightarrow> string \<Rightarrow> coordinates option" where
  "fetchGeocodingResult geocode query =
     (case geocode query of
        FetchOk (Some (result # _)) \<Rightarrow> Some (geoCoordinates result)
      | _ \<Rightarrow> None)"

definition matchesContext :: "string \<Rightarrow> geoResult \<Rightarrow> bool" where
  "matchesContext ctxt r =
     (let matchString =
            toLowerCase (nullish (truthyVal (geo_admin1 r)) [] @ '' ''
                         @ nullish (truthyVal (geo_country r)) [])
      in list_ex (\<lambda>word. length word > 2 \<and> strIncludes matchString (trim word))
           (splitOn CHR '' '' ctxt))"

text \<open>
  \<^verbatim>\<open>parseLocationInput\<close> returns the coordinates or the error it throws, with the
  list of the geocoding requests it made, in order.  \<^verbatim>\<open>parseFloat\<close> is the runtime's,
  a parameter of the model.  The messages it logs in development mode are left out.
\<close>

definition parseLocationInput ::
  "(string \<Rightarrow> jsnum) \<Rightarrow> (string \<Rightarrow> fetchOutcome) \<Rightarrow> string
     \<Rightarrow> (locationError + coordinates) \<times> string list" where
  "parseLocationInput parseFloat geocode input =
     (let trimmed = trim input
      in case matchCoordinates trimmed of
           Some (g1, g2) \<Rightarrow>
             (let lat = parseFloat g1; lng = parseFloat g2
              in if jge lat (Fin (- 90)) \<and> jle lat (Fin 90)
                    \<and> jge lng (Fin (- 180)) \<and> jle lng (Fin 180)
                 then (Inr \<lparr>latitude = lat, longitude = lng\<rparr>, [])
                 else (Inl InvalidCoordinatesRange, []))
         | None \<Rightarrow>
             (case fetchGeocodingResult geocode trimmed of
                Some result \<Rightarrow> (Inr result, [trimmed])
              | None \<Rightarrow>
                  if CHR '','' \<in> set trimmed then
                    (let parts = splitOn CHR '','' trimmed;
                         simpleCity = trim (hd parts);
                         ctxt = toLowerCase (joinWith '' '' (tl parts))
                     in case geocode simpleCity of
                          FetchOk (Some (r # rs)) \<Rightarrow>
                            (case filter (matchesContext ctxt) (r # rs) of
                               m # _ \<Rightarrow> (Inr (geoCoordinates m), [trimmed, simpleCity])
                             | [] \<Rightarrow> (Inr (geoCoordinates r), [trimmed, simpleCity]))
                        | _ \<Rightarrow> (Inl NoGeocodingResults, [trimmed, simpleCity]))
                  else (Inl NoGeocodingResults, [trimmed])))"

text \<open>
  The value of a numeral of the pattern as \<^verbatim>\<open>parseFloat\<close> reads it, without the
  rounding to a double; NaN when the string does not start with a numeral.
\<close>

definition digitsToNat :: "string \<Rightarrow> nat" where
  "digitsToNat ds = foldl (\<lambda>acc c. 10 * acc + ((of_char c :: nat) - 48)) 0 ds"

definition parseFloatExact :: "string \<Rightarrow> jsnum" where
  "parseFloatExact s =
     (let negative = (case s of c # cs \<Rightarrow> c = CHR ''-'' | [] \<Rightarrow> False);
          r1 = (if negative then tl s else s);
          ds = takeWhile isDigit r1;
          r2 = dropWhile isDigit r1;
          fs = (case r2 of c # cs \<Rightarrow> if c = CHR ''.'' then takeWhile isDigit cs else [] | [] \<Rightarrow> [])
      in if ds = [] then NaN
         else
           (let v = real (digitsToNat ds) + real (digitsToNat fs) / 10 ^ length fs
            in Fin (if negative then - v else v)))"

text \<open>A geocoding service that is never reached.\<close>

definition unusedGeocoder :: "string \<Rightarrow> fetchOutcome" where
  "unusedGeocoder name = FetchFailed"


subsection \<open>Updating details\<close>






subsection \<open>Deleting\<close>

definition deleteSubsidiary :: "string \<Rightarrow> store \<Rightarrow> store" where
  "deleteSubsidiary subsidiaryId st =
     (let groups = parentGroups st
      in case find (\<lambda>subsidiary. sub_id subsidiary = subsidiaryId) (subsidiaries st) of
           None \<Rightarrow> st
         | Some removedSubsidiary \<Rightarrow>
             (let parentGroupId = sub_parentGroupId removedSubsidiary;
                  updatedGroups =
                    map (\<lambda>group.
                          let remainingSubsidiaries =
                                filter (\<lambda>subsidiary. sub_id subsidiary \<noteq> subsidiaryId)
                                  (grp_subsidiaries group)
                          in if length remainingSubsidiaries = length (grp_subsidiaries group)
                             then group
                             else group
                               \<lparr>grp_subsidiaries := remainingSubsidiaries,
                                grp_metrics := computeMetricsFromSubsidiaries remainingSubsidiaries\<rparr>)
                      groups;
                  st1 = st\<lparr>parentGroups := updatedGroups\<rparr>;
                  removedFactoryIds = map fac_id (sub_factories removedSubsidiary);
                  st2 = st1\<lparr>activityLogs :=
                          filter (\<lambda>l. log_subsidiaryId l \<noteq> subsidiaryId
                                       \<and> log_factoryId l \<notin> set removedFactoryIds)
                            (activityLogs st1)\<rparr>
              in case selectedEntity st2 of
                   None \<Rightarrow> st2
                 | Some selection \<Rightarrow>
                     if sel_subsidiaryId selection = Some subsidiaryId
                        \<or> sel_id selection = subsidiaryId
                     then
                       (if truthyStr parentGroupId
                        then st2\<lparr>selectedEntity :=
                                 Some \<lparr>sel_level = Parent, sel_id = parentGroupId,
                                       sel_parentGroupId = Some parentGroupId,
                                       sel_subsidiaryId = None, sel_factoryId = None\<rparr>,
                               mapViewMode := Parent\<rparr>
                        else st2\<lparr>selectedEntity := None\<rparr>)
                     else st2))"


subsection \<open>Hub status\<close>



subsection \<open>Adding and replacing subsidiaries\<close>

text \<open>
  \<^verbatim>\<open>addSubsidiary\<close> and \<^verbatim>\<open>updateSubsidiary\<close> call each other: adding a subsidiary that
  its parent already holds replaces it, and replacing one that is not there adds it.
  \<open>subsidiaryKnown\<close> is the condition that decides the direction of the call; it gives
  the measure of the termination proof.
\<close>

definition subsidiaryKnown :: "subsidiaryCompany \<Rightarrow> store \<Rightarrow> bool" where
  "subsidiaryKnown subsidiary st =
     (case findIndex (\<lambda>group. grp_id group = sub_parentGroupId subsidiary) (parentGroups st) of
        None \<Rightarrow> False
      | Some parentIndex \<Rightarrow>
          findIndex (\<lambda>sub. sub_id sub = sub_id subsidiary)
            (grp_subsidiaries (parentGroups st ! parentIndex)) \<noteq> None)"



subsection \<open>Adding and replacing factories\<close>

definition factoryKnown :: "factoryLocation \<Rightarrow> store \<Rightarrow> bool" where
  "factoryKnown factory st =
     (case findIndex (\<lambda>group. grp_id group = fac_parentGroupId factory) (parentGroups st) of
        None \<Rightarrow> False
      | Some parentIndex \<Rightarrow>
          (case findIndex (\<lambda>sub. sub_id sub = fac_subsidiaryId factory)
                  (grp_subsidiaries (parentGroups st ! parentIndex)) of
             None \<Rightarrow> False
           | Some subIndex \<Rightarrow>
               findIndex (\<lambda>f. fac_id f = fac_id factory)
                 (sub_factories (grp_subsidiaries (parentGroups st ! parentIndex) ! subIndex))
                 \<noteq> None))"




section \<open>A small hierarchy\<close>

text \<open>
  One parent group with two subsidiaries; the first holds two factories and a hub, the
  second is empty.  The stored metrics are the recomputed ones.
\<close>

definition exampleF1 :: factoryLocation where
  "exampleF1 =
     \<lparr>fac_id = ''f1'', fac_parentGroupId = ''g1'', fac_subsidiaryId = ''s1'', fac_name = ''Plant 1'',
      fac_city = ''Lyon'', fac_country = ''France'',
      fac_coordinates = Some \<lparr>latitude = Fin 10, longitude = Fin 20\<rparr>,
      fac_assets = Some (Fin 5), fac_incidents = Fin 1, fac_syncStability = Fin 90,
      fac_status = ''ACTIVE'', fac_description = ''first''\<rparr>"

definition exampleF2 :: factoryLocation where
  "exampleF2 =
     \<lparr>fac_id = ''f2'', fac_parentGroupId = ''g1'', fac_subsidiaryId = ''s1'', fac_name = ''Plant 2'',
      fac_city = ''Turin'', fac_country = ''Italy'',
      fac_coordinates = Some \<lparr>latitude = Fin 30, longitude = Fin 40\<rparr>,
      fac_assets = Some (Fin 15), fac_incidents = Fin 2, fac_syncStability = Fin 98,
      fac_status = ''ACTIVE'', fac_description = ''second''\<rparr>"

definition exampleS1 :: subsidiaryCompany where
  "exampleS1 =
     \<lparr>sub_id = ''s1'', sub_parentGroupId = ''g1'', sub_name = ''South'', sub_location = ''Lyon'',
      sub_description = ''southern plants'', sub_status = ''ACTIVE'',
      sub_hubs = [\<lparr>hub_code = ''H1'', hub_status = ''ONLINE''\<rparr>],
      sub_factories = [exampleF1, exampleF2],
      sub_metrics = \<lparr>assetCount = Fin 20, incidentCount = Fin 3, syncStability = Fin 96\<rparr>\<rparr>"

definition exampleS2 :: subsidiaryCompany where
  "exampleS2 =
     \<lparr>sub_id = ''s2'', sub_parentGroupId = ''g1'', sub_name = ''North'', sub_location = ''Oslo'',
      sub_description = ''northern plants'', sub_status = ''ACTIVE'',
      sub_hubs = [], sub_factories = [],
      sub_metrics = \<lparr>assetCount = Fin 0, incidentCount = Fin 0, syncStability = Fin 0\<rparr>\<rparr>"

definition exampleG1 :: parentGroup where
  "exampleG1 =
     \<lparr>grp_id = ''g1'', grp_name = ''G1'', grp_status = ''ACTIVE'',
      grp_subsidiaries = [exampleS1, exampleS2],
      grp_metrics =
        \<lparr>assetCount = Fin 20, incidentCount = Fin 3, syncStability = Fin (914 / 10)\<rparr>\<rparr>"

definition exampleLog :: "string \<Rightarrow> string \<Rightarrow> string \<Rightarrow> int \<Rightarrow> activityLog" where
  "exampleLog lid factoryId subsidiaryId t =
     \<lparr>log_id = lid, log_timestamp = TsDate (ValidDate t), log_factoryId = factoryId,
      log_subsidiaryId = subsidiaryId, log_description = ''event'', log_location = ''somewhere''\<rparr>"

definition exampleStore :: store where
  "exampleStore =
     \<lparr>parentGroups = [exampleG1],
      transitRoutes = [],
      activityLogs =
        [exampleLog ''a'' ''f1'' ''s1'' 300, exampleLog ''b'' ''f2'' ''s1'' 200,
         exampleLog ''c'' ''f9'' ''s2'' 100],
      networkMetrics = None,
      networkThroughput = None,
      geopoliticalHeatmap = None,
      satelliteStatuses = [],
      mapViewMode = Parent,
      selectedEntity =
        Some \<lparr>sel_level = Parent, sel_id = ''g1'', sel_parentGroupId = Some ''g1'',
              sel_subsidiaryId = None, sel_factoryId = None\<rparr>,
      hoveredEntity = None,
      factoryFilterSubsidiaryId = Some ''s1'',
      panToEntity = None,
      consoleWarnings = []\<rparr>"

definition selectS1 :: fleetSelection where
  "selectS1 =
     \<lparr>sel_level = Subsidiary, sel_id = ''s1'', sel_parentGroupId = Some ''g1'',
      sel_subsidiaryId = Some ''s1'', sel_factoryId = None\<rparr>"

text \<open>The parse of a date string that no example reads.\<close>

definition noDateParser :: "string \<Rightarrow> jsdate" where
  "noDateParser s = InvalidDate"



text \<open>Two new log entries: one as old as the newest entry of the store, one for a factory
  that already has an entry.\<close>

definition exampleTie :: activityLog where
  "exampleTie = exampleLog ''d'' ''f7'' ''s2'' 300"

definition exampleNewer :: activityLog where
  "exampleNewer = exampleLog ''n'' ''f2'' ''s1'' 250"




section \<open>Notions of the specification\<close>

text \<open>The first factory of the first subsidiary of a parent group, if there is one.\<close>

definition firstFactoryOfFirstSubsidiary :: "parentGroup \<Rightarrow> factoryLocation option" where
  "firstFactoryOfFirstSubsidiary g =
     (case grp_subsidiaries g of
        [] \<Rightarrow> None
      | s # _ \<Rightarrow> (case sub_factories s of [] \<Rightarrow> None | f # _ \<Rightarrow> Some f))"

text \<open>The selection of a factory, with the ancestor ids the factory itself carries.\<close>

definition factorySelection :: "factoryLocation \<Rightarrow> fleetSelection" where
  "factorySelection f =
     \<lparr>sel_level = Factory, sel_id = fac_id f, sel_parentGroupId = Some (fac_parentGroupId f),
      sel_subsidiaryId = Some (fac_subsidiaryId f), sel_factoryId = Some (fac_id f)\<rparr>"

text \<open>The selection of a parent group.\<close>

definition parentSelection :: "string \<Rightarrow> fleetSelection" where
  "parentSelection parentGroupId =
     \<lparr>sel_level = Parent, sel_id = parentGroupId, sel_parentGroupId = Some parentGroupId,
      sel_subsidiaryId = None, sel_factoryId = None\<rparr>"

text \<open>
  A selection references a subsidiary when it is the subsidiary itself or names it as
  its ancestor.
\<close>

definition referencesSubsidiary :: "fleetSelection \<Rightarrow> string \<Rightarrow> bool" where
  "referencesSubsidiary sel subsidiaryId =
     (sel_subsidiaryId sel = Some subsidiaryId \<or> sel_id sel = subsidiaryId)"




text \<open>
  The time of a log entry once its timestamp is normalized to a date, and the two
  readings of "newest first": ties allowed, and strictly descending.
\<close>

definition timeOf :: "(string \<Rightarrow> jsdate) \<Rightarrow> activityLog \<Rightarrow> int" where
  "timeOf parseDate l =
     (case toDate parseDate (log_timestamp l) of ValidDate t \<Rightarrow> t | InvalidDate \<Rightarrow> 0)"

definition hasValidTime :: "(string \<Rightarrow> jsdate) \<Rightarrow> activityLog \<Rightarrow> bool" where
  "hasValidTime parseDate l = (toDate parseDate (log_timestamp l) \<noteq> InvalidDate)"

definition newestFirst :: "(string \<Rightarrow> jsdate) \<Rightarrow> activityLog list \<Rightarrow> bool" where
  "newestFirst parseDate logs = sorted_wrt (\<lambda>a b. timeOf parseDate b \<le> timeOf parseDate a) logs"

definition strictlyNewestFirst :: "(string \<Rightarrow> jsdate) \<Rightarrow> activityLog list \<Rightarrow> bool" where
  "strictlyNewestFirst parseDate logs =
     sorted_wrt (\<lambda>a b. timeOf parseDate b < timeOf parseDate a) logs"

text \<open>
  The parts of an input of the form \<^verbatim>\<open><lat>, <lng>\<close>: an optional minus sign, one or
  more digits, an optional fraction (a dot and digits), and white space; and the
  ranges of a latitude and a longitude.
\<close>

definition isSign :: "string \<Rightarrow> bool" where
  "isSign s = (s = [] \<or> s = ''-'')"

definition isDigits :: "string \<Rightarrow> bool" where
  "isDigits s = (s \<noteq> [] \<and> list_all isDigit s)"

definition isFraction :: "string \<Rightarrow> bool" where
  "isFraction s = (s = [] \<or> (hd s = CHR ''.'' \<and> list_all isDigit (tl s)))"

definition isBlank :: "string \<Rightarrow> bool" where
  "isBlank s = list_all isSpace s"

definition inRange :: "jsnum \<Rightarrow> jsnum \<Rightarrow> bool" where
  "inRange lat lng =
     (case (lat, lng) of
        (Fin a, Fin b) \<Rightarrow> - 90 \<le> a \<and> a \<le> 90 \<and> - 180 \<le> b \<and> b \<le> 180
      | _ \<Rightarrow> False)"


section \<open>Metrics and mutations, as the specification words them\<close>




















section \<open>Properties: level of detail\<close>

text \<open>
  Claim C8.  Without selection, a finite zoom factor \<open>z\<close> gives logo-only exactly when
  \<open>z < 1.2\<close>, compact exactly when \<open>1.2 \<le> z < 2.5\<close> and full detail exactly when
  \<open>2.5 \<le> z\<close>; positive infinity gives full detail, negative infinity logo-only, and NaN
  (which satisfies none of the three conditions) none of the three.  With selection,
  every zoom factor, finite or not, gives full detail and neither of the other two.
\<close>

theorem getPinLodState_thresholds:
  "isLogoOnly (getPinLodState (Fin z) False) = (z < 12 / 10)
   \<and> isCompactLogo (getPinLodState (Fin z) False) = (12 / 10 \<le> z \<and> z < 25 / 10)
   \<and> isFullDetail (getPinLodState (Fin z) False) = (25 / 10 \<le> z)
   \<and> getPinLodState PInf False =
       \<lparr>isLogoOnly = False, isCompactLogo = False, isFullDetail = True, lodClass = LodHigh\<rparr>
   \<and> getPinLodState NInf False =
       \<lparr>isLogoOnly = True, isCompactLogo = False, isFullDetail = False, lodClass = LodLow\<rparr>
   \<and> getPinLodState NaN False =
       \<lparr>isLogoOnly = False, isCompactLogo = False, isFullDetail = False, lodClass = LodLow\<rparr>
   \<and> getPinLodState zf True =
       \<lparr>isLogoOnly = False, isCompactLogo = False, isFullDetail = True, lodClass = LodHigh\<rparr>"
  by (auto simp: getPinLodState_def LOD_LOGO_ONLY_THRESHOLD_def LOD_FULL_DETAIL_THRESHOLD_def
      Let_def)

theorem getPinLodState_thresholds_witness:
  "isLogoOnly (getPinLodState (Fin 1) False)
   \<and> isCompactLogo (getPinLodState (Fin (3 / 2)) False)
   \<and> isFullDetail (getPinLodState (Fin 3) False)
   \<and> isFullDetail (getPinLodState (Fin 1) True)
   \<and> \<not> isLogoOnly (getPinLodState (Fin 1) True)"
  using getPinLodState_thresholds [of 1 "Fin 1"] getPinLodState_thresholds [of "3 / 2" "Fin 1"]
    getPinLodState_thresholds [of 3 "Fin 1"]
  by simp


section \<open>Properties: center of gravity\<close>

lemma foldl_jadd_Fin:
  "(\<And>x. x \<in> set xs \<Longrightarrow> h x = Fin (g x)) \<Longrightarrow>
   foldl (\<lambda>s x. jadd s (h x)) (Fin a) xs = Fin (a + sum_list (map g xs))"
  by (induction xs arbitrary: a) (simp_all add: add.assoc)

lemma usable_iff_valid: "hasUsableCoordinates f = isValidCoordinates (fac_coordinates f)"
  by (auto simp: hasUsableCoordinates_def isValidCoordinates_def
      split: option.splits jsnum.splits)

lemma usable_lat: "hasUsableCoordinates f \<Longrightarrow> coordLat f = Fin (latOf f)"
  by (auto simp: hasUsableCoordinates_def coordLat_def latOf_def split: option.splits jsnum.splits)

lemma usable_lng: "hasUsableCoordinates f \<Longrightarrow> coordLng f = Fin (lngOf f)"
  by (auto simp: hasUsableCoordinates_def coordLng_def lngOf_def split: option.splits jsnum.splits)

lemma finiteCount_weight:
  "isFiniteCount (fac_assets f) \<Longrightarrow> orDefault (fac_assets f) (Fin 1) = Fin (assetWeight f)"
  by (auto simp: isFiniteCount_def assetWeight_def split: option.splits jsnum.splits)

lemma assetCount_finite: "isAssetCount a \<Longrightarrow> isFiniteCount a"
  by (auto simp: isAssetCount_def isFiniteCount_def split: option.splits jsnum.splits)

lemma assetCount_weight_pos: "isAssetCount (fac_assets f) \<Longrightarrow> 0 < assetWeight f"
  by (auto simp: isAssetCount_def assetWeight_def split: option.splits jsnum.splits)

lemma sum_list_pos_nonempty:
  fixes g :: "'a \<Rightarrow> real"
  assumes "xs \<noteq> []" and pos: "\<And>x. x \<in> set xs \<Longrightarrow> 0 < g x"
  shows "0 < sum_list (map g xs)"
proof (cases xs)
  case Nil
  with assms show ?thesis by simp
next
  case (Cons a ys)
  have "0 \<le> sum_list (map g ys)"
    by (rule sum_list_nonneg) (use pos Cons in \<open>auto simp: less_imp_le\<close>)
  moreover have "0 < g a"
    using pos Cons by simp
  ultimately show ?thesis
    using Cons by simp
qed

text \<open>Proper counts can be weighed, and their weights do not cancel.\<close>

lemma assetCounts_weighable:
  assumes "\<forall>f \<in> set fs. hasUsableCoordinates f \<longrightarrow> isAssetCount (fac_assets f)"
  shows "(\<forall>f \<in> set fs. hasUsableCoordinates f \<longrightarrow> isFiniteCount (fac_assets f))
         \<and> (filter hasUsableCoordinates fs \<noteq> []
              \<longrightarrow> (\<Sum>f\<leftarrow>filter hasUsableCoordinates fs. assetWeight f) \<noteq> 0)"
proof (intro conjI impI)
  show "\<forall>f \<in> set fs. hasUsableCoordinates f \<longrightarrow> isFiniteCount (fac_assets f)"
    using assms assetCount_finite by blast
next
  assume "filter hasUsableCoordinates fs \<noteq> []"
  then have "0 < sum_list (map assetWeight (filter hasUsableCoordinates fs))"
    by (rule sum_list_pos_nonempty) (use assms in \<open>simp add: assetCount_weight_pos\<close>)
  then show "(\<Sum>f\<leftarrow>filter hasUsableCoordinates fs. assetWeight f) \<noteq> 0"
    by simp
qed

text \<open>
  Claim C1, as stated for every list of factories, fails when the weights cancel.  Two
  factories with valid coordinates \<open>(10, 20)\<close> and \<open>(30, 40)\<close> and asset counts \<open>1\<close> and
  \<open>-1\<close> have total weight zero; the computed center is the division of \<open>-20\<close> by zero
  in both components, the pair of negative infinities, which is no average of the two
  positions.
\<close>

theorem computeCenterOfGravity_cancel_counterexample:
  "hasUsableCoordinates exampleFactoryUnit
   \<and> hasUsableCoordinates exampleFactoryDebit
   \<and> fac_assets exampleFactoryUnit = Some (Fin 1)
   \<and> fac_assets exampleFactoryDebit = Some (Fin (- 1))
   \<and> computeCenterOfGravity [exampleFactoryUnit, exampleFactoryDebit]
       = \<lparr>latitude = NInf, longitude = NInf\<rparr>
   \<and> computeCenterOfGravity [exampleFactoryUnit, exampleFactoryDebit]
       \<noteq> specCenter [exampleFactoryUnit, exampleFactoryDebit]"
  by (simp add: exampleFactoryUnit_def exampleFactoryDebit_def exampleFactoryPlaced_def
      hasUsableCoordinates_def computeCenterOfGravity_def isValidCoordinates_def
      coordLat_def coordLng_def specCenter_def signedInf_def Let_def)

text \<open>
  Claim C1, amended.  For every list of factories in which the asset counts of the
  factories with valid coordinates are not infinite and the weights of those factories
  do not add up to zero (as is the case whenever these counts are non-negative numbers
  or missing), the computed center is the one the specification describes: factories
  with missing, non-finite or \<open>(0, 0)\<close> coordinates are left out; the center is the
  average of the remaining latitudes and longitudes weighted by the asset count (1 when
  zero, missing or not a number); with no remaining factory it is the pair (NaN, NaN).
\<close>

theorem computeCenterOfGravity_spec:
  assumes finite: "\<forall>f \<in> set fs. hasUsableCoordinates f \<longrightarrow> isFiniteCount (fac_assets f)"
    and nonzero: "filter hasUsableCoordinates fs \<noteq> []
                  \<longrightarrow> (\<Sum>f\<leftarrow>filter hasUsableCoordinates fs. assetWeight f) \<noteq> 0"
  shows "computeCenterOfGravity fs = specCenter fs"
proof -
  define vs where "vs = filter hasUsableCoordinates fs"
  have vs_eq: "filter (\<lambda>factory. isValidCoordinates (fac_coordinates factory)) fs = vs"
    unfolding vs_def by (rule filter_cong) (simp_all add: usable_iff_valid)
  have in_vs: "\<And>f. f \<in> set vs \<Longrightarrow> hasUsableCoordinates f \<and> isFiniteCount (fac_assets f)"
    using finite by (simp add: vs_def)
  have tw: "foldl (\<lambda>sum factory. jadd sum (orDefault (fac_assets factory) (Fin 1))) (Fin 0) vs
            = Fin (0 + sum_list (map assetWeight vs))"
    by (rule foldl_jadd_Fin) (simp add: in_vs finiteCount_weight)
  have wlat: "foldl (\<lambda>sum factory.
                jadd sum (jmul (coordLat factory) (orDefault (fac_assets factory) (Fin 1))))
              (Fin 0) vs
            = Fin (0 + sum_list (map (\<lambda>f. latOf f * assetWeight f) vs))"
    by (rule foldl_jadd_Fin) (simp add: in_vs finiteCount_weight usable_lat)
  have wlng: "foldl (\<lambda>sum factory.
                jadd sum (jmul (coordLng factory) (orDefault (fac_assets factory) (Fin 1))))
              (Fin 0) vs
            = Fin (0 + sum_list (map (\<lambda>f. lngOf f * assetWeight f) vs))"
    by (rule foldl_jadd_Fin) (simp add: in_vs finiteCount_weight usable_lng)
  show ?thesis
  proof (cases "vs = []")
    case True
    then show ?thesis
      by (simp add: computeCenterOfGravity_def specCenter_def vs_eq vs_def [symmetric])
  next
    case False
    then have nz: "sum_list (map assetWeight vs) \<noteq> 0"
      using nonzero by (simp add: vs_def)
    show ?thesis
      using False nz
      by (simp add: computeCenterOfGravity_def specCenter_def vs_eq vs_def [symmetric]
          tw wlat wlng weightedAverage_def Let_def)
  qed
qed

theorem computeCenterOfGravity_spec_witness:
  "\<not> hasUsableCoordinates exampleFactoryOrigin
   \<and> hasUsableCoordinates exampleFactoryPlaced
   \<and> isFiniteCount (fac_assets exampleFactoryPlaced)
   \<and> assetWeight exampleFactoryPlaced = 5
   \<and> computeCenterOfGravity [exampleFactoryOrigin, exampleFactoryPlaced]
       = \<lparr>latitude = Fin 10, longitude = Fin 20\<rparr>
   \<and> computeCenterOfGravity [exampleFactoryOrigin] = \<lparr>latitude = NaN, longitude = NaN\<rparr>"
proof -
  have o: "\<not> hasUsableCoordinates exampleFactoryOrigin"
    by (simp add: exampleFactoryOrigin_def hasUsableCoordinates_def)
  have p: "hasUsableCoordinates exampleFactoryPlaced"
    by (simp add: exampleFactoryPlaced_def hasUsableCoordinates_def)
  have c: "isFiniteCount (fac_assets exampleFactoryPlaced)"
    by (simp add: exampleFactoryPlaced_def isFiniteCount_def)
  have vals: "latOf exampleFactoryPlaced = 10" "lngOf exampleFactoryPlaced = 20"
    "assetWeight exampleFactoryPlaced = 5"
    by (simp_all add: exampleFactoryPlaced_def latOf_def lngOf_def coordLat_def coordLng_def
        assetWeight_def)
  have f2: "\<forall>f \<in> set [exampleFactoryOrigin, exampleFactoryPlaced].
              hasUsableCoordinates f \<longrightarrow> isFiniteCount (fac_assets f)"
    using o c by simp
  have n2: "filter hasUsableCoordinates [exampleFactoryOrigin, exampleFactoryPlaced] \<noteq> []
            \<longrightarrow> (\<Sum>f\<leftarrow>filter hasUsableCoordinates [exampleFactoryOrigin, exampleFactoryPlaced].
                    assetWeight f) \<noteq> 0"
    using o p by (simp add: vals)
  have f1: "\<forall>f \<in> set [exampleFactoryOrigin].
              hasUsableCoordinates f \<longrightarrow> isFiniteCount (fac_assets f)"
    using o by simp
  have n1: "filter hasUsableCoordinates [exampleFactoryOrigin] \<noteq> []
            \<longrightarrow> (\<Sum>f\<leftarrow>filter hasUsableCoordinates [exampleFactoryOrigin]. assetWeight f) \<noteq> 0"
    using o by simp
  show ?thesis
    using o p c computeCenterOfGravity_spec [OF f2 n2] computeCenterOfGravity_spec [OF f1 n1]
    by (simp add: specCenter_def weightedAverage_def vals)
qed


section \<open>Properties: lists\<close>

lemma findIndex_None: "findIndex P xs = None \<longleftrightarrow> \<not> list_ex P xs"
  by (induction xs) auto



lemma filter_length_eq: "length (filter P xs) = length xs \<Longrightarrow> filter P xs = xs"
  by (metis filter_True length_filter_less less_irrefl_nat)


section \<open>Properties: selection and view mode\<close>

text \<open>
  Claim C10.  Whatever the target mode and the state, \<^verbatim>\<open>setMapViewMode\<close> leaves the
  factory filter empty and the view mode at the target, and changes none of the
  transit routes, activity logs, network metrics, throughput, heatmap, satellite
  statuses, hierarchy, hovered entity, pan request and warnings.
\<close>

theorem setMapViewMode_frame:
  "factoryFilterSubsidiaryId (setMapViewMode viewMode st) = None
   \<and> mapViewMode (setMapViewMode viewMode st) = viewMode
   \<and> transitRoutes (setMapViewMode viewMode st) = transitRoutes st
   \<and> activityLogs (setMapViewMode viewMode st) = activityLogs st
   \<and> networkMetrics (setMapViewMode viewMode st) = networkMetrics st
   \<and> networkThroughput (setMapViewMode viewMode st) = networkThroughput st
   \<and> geopoliticalHeatmap (setMapViewMode viewMode st) = geopoliticalHeatmap st
   \<and> satelliteStatuses (setMapViewMode viewMode st) = satelliteStatuses st
   \<and> parentGroups (setMapViewMode viewMode st) = parentGroups st
   \<and> hoveredEntity (setMapViewMode viewMode st) = hoveredEntity st
   \<and> panToEntity (setMapViewMode viewMode st) = panToEntity st
   \<and> consoleWarnings (setMapViewMode viewMode st) = consoleWarnings st"
  by (simp add: setMapViewMode_def Let_def split: option.splits)

theorem setMapViewMode_frame_witness:
  "factoryFilterSubsidiaryId exampleStore = Some ''s1''
   \<and> mapViewMode exampleStore = Parent
   \<and> factoryFilterSubsidiaryId (setMapViewMode Parent exampleStore) = None
   \<and> activityLogs (setMapViewMode Parent exampleStore) = activityLogs exampleStore"
  using setMapViewMode_frame [of Parent exampleStore]
  by (simp add: exampleStore_def)

text \<open>
  Claim C9, as stated, fails: a subsidiary that exists is selected while the view mode
  is \<open>Parent\<close>; the selection normalizes, yet the call changes nothing and the view mode
  stays \<open>Parent\<close>.
\<close>

theorem selectEntity_viewMode_counterexample:
  "normalizeSelection exampleStore selectS1 = Some selectS1
   \<and> sel_level selectS1 = Subsidiary
   \<and> mapViewMode (selectEntity (Some selectS1) exampleStore) = Parent
   \<and> selectEntity (Some selectS1) exampleStore = exampleStore"
  by (simp add: selectEntity_def normalizeSelection_def selectS1_def subsidiaries_def
      subsidiariesOf_def exampleStore_def exampleG1_def exampleS1_def)

text \<open>
  Claim C9, amended.  For a selection that normalizes to an existing entity: a
  subsidiary-level selection made while the view mode is not \<open>Subsidiary\<close> is rejected
  and the store is unchanged; otherwise the normalized selection is stored, and the
  view mode stays \<open>Subsidiary\<close> when the normalized selection is a factory seen in
  subsidiary mode, and becomes the level of the normalized selection in every other
  case.
\<close>

theorem selectEntity_viewMode:
  assumes "normalizeSelection st sel = Some n"
  shows "selectEntity (Some sel) st =
           (if sel_level sel = Subsidiary \<and> mapViewMode st \<noteq> Subsidiary then st
            else st\<lparr>selectedEntity := Some n,
                    mapViewMode :=
                      (if sel_level n = Factory \<and> mapViewMode st = Subsidiary then Subsidiary
                       else sel_level n)\<rparr>)"
  using assms by (auto simp: selectEntity_def Let_def)

theorem selectEntity_viewMode_witness:
  "normalizeSelection exampleStore (factorySelection exampleF2) = Some (factorySelection exampleF2)
   \<and> mapViewMode exampleStore = Parent
   \<and> mapViewMode (selectEntity (Some (factorySelection exampleF2)) exampleStore) = Factory
   \<and> selectedEntity (selectEntity (Some (factorySelection exampleF2)) exampleStore)
       = Some (factorySelection exampleF2)"
proof -
  have n: "normalizeSelection exampleStore (factorySelection exampleF2)
             = Some (factorySelection exampleF2)"
    by (simp add: normalizeSelection_def factorySelection_def factories_def factoriesOf_def
        subsidiariesOf_def exampleStore_def exampleG1_def exampleS1_def exampleS2_def
        exampleF1_def exampleF2_def)
  show ?thesis
    using n selectEntity_viewMode [OF n]
    by (simp add: factorySelection_def exampleStore_def)
qed

text \<open>
  Claim C4, as stated, fails for a selected subsidiary: the subsidiary \<open>s1\<close> is selected,
  no factory id is chosen, its first factory is \<open>f1\<close>, and after
  \<^verbatim>\<open>setMapViewMode('factory')\<close> the selection is still the subsidiary.
\<close>

theorem setMapViewMode_factory_subsidiary_counterexample:
  "selectedEntity (exampleStore\<lparr>selectedEntity := Some selectS1\<rparr>) = Some selectS1
   \<and> truthyVal (sel_factoryId selectS1) = None
   \<and> first (sub_factories exampleS1) = Some exampleF1
   \<and> selectedEntity (setMapViewMode Factory (exampleStore\<lparr>selectedEntity := Some selectS1\<rparr>))
       = Some selectS1
   \<and> Some selectS1 \<noteq> Some (factorySelection exampleF1)
   \<and> sel_level selectS1 \<noteq> Factory"
  by (simp add: setMapViewMode_def selectS1_def truthyVal_def first_def exampleS1_def
      factorySelection_def)

text \<open>
  Claim C4, amended.  When the selection carries no factory id,
  \<^verbatim>\<open>setMapViewMode('factory')\<close> moves a parent-level selection to the first factory of
  the first subsidiary of its parent group (found by the selection's parent-group id,
  or by its id when that is missing), at level \<open>Factory\<close> with the ancestor ids of that
  factory, and leaves the selection as it is when there is no such group or factory; a
  subsidiary-level selection is left as it is.
\<close>

theorem setMapViewMode_factory_fallback:
  assumes sel: "selectedEntity st = Some sel"
    and nofac: "truthyVal (sel_factoryId sel) = None"
  shows "selectedEntity (setMapViewMode Factory st) =
           (case sel_level sel of
              Parent \<Rightarrow>
                (case find (\<lambda>g. grp_id g = orStr (sel_parentGroupId sel) (sel_id sel))
                        (parentGroups st) of
                   None \<Rightarrow> Some sel
                 | Some g \<Rightarrow>
                     (case firstFactoryOfFirstSubsidiary g of
                        None \<Rightarrow> Some sel
                      | Some f \<Rightarrow> Some (factorySelection f)))
            | Subsidiary \<Rightarrow> Some sel
            | Factory \<Rightarrow> Some sel)"
  using assms
  by (auto simp: setMapViewMode_def Let_def getFirstFactoryForSelection_def first_def
      firstFactoryOfFirstSubsidiary_def factorySelection_def
      split: level.splits option.splits list.splits)

theorem setMapViewMode_factory_fallback_witness:
  "selectedEntity (setMapViewMode Factory exampleStore) = Some (factorySelection exampleF1)"
  using setMapViewMode_factory_fallback [of exampleStore "the (selectedEntity exampleStore)"]
  by (simp add: exampleStore_def truthyVal_def orStr_def truthyStr_def exampleG1_def
      firstFactoryOfFirstSubsidiary_def exampleS1_def)

section \<open>Properties: deleting a subsidiary\<close>

text \<open>
  Claim C6.  When a subsidiary with the given id exists, \<^verbatim>\<open>deleteSubsidiary\<close> removes
  it from every parent group (no subsidiary of that id is left), removes exactly the
  activity-log entries whose subsidiary id is the deleted id or whose factory id is one
  of the deleted subsidiary's factories, and, when the selection references the deleted
  subsidiary, selects its parent group at level \<open>Parent\<close> and sets the view mode to
  \<open>Parent\<close>, or clears the selection when the subsidiary has no parent-group id;
  otherwise selection and view mode are unchanged.
\<close>

theorem deleteSubsidiary_effects:
  assumes found: "find (\<lambda>s. sub_id s = sid) (subsidiaries st) = Some removed"
  shows "map grp_subsidiaries (parentGroups (deleteSubsidiary sid st))
           = map (\<lambda>g. filter (\<lambda>s. sub_id s \<noteq> sid) (grp_subsidiaries g)) (parentGroups st)
     \<and> sid \<notin> sub_id ` set (subsidiaries (deleteSubsidiary sid st))
     \<and> activityLogs (deleteSubsidiary sid st)
           = filter (\<lambda>l. log_subsidiaryId l \<noteq> sid
                          \<and> log_factoryId l \<notin> fac_id ` set (sub_factories removed))
               (activityLogs st)
     \<and> selectedEntity (deleteSubsidiary sid st)
           = (case selectedEntity st of
                None \<Rightarrow> None
              | Some sel \<Rightarrow>
                  if referencesSubsidiary sel sid
                  then (if sub_parentGroupId removed \<noteq> []
                        then Some (parentSelection (sub_parentGroupId removed)) else None)
                  else Some sel)
     \<and> mapViewMode (deleteSubsidiary sid st)
           = (case selectedEntity st of
                None \<Rightarrow> mapViewMode st
              | Some sel \<Rightarrow>
                  if referencesSubsidiary sel sid \<and> sub_parentGroupId removed \<noteq> []
                  then Parent else mapViewMode st)"
proof -
  have groups: "map grp_subsidiaries (parentGroups (deleteSubsidiary sid st))
           = map (\<lambda>g. filter (\<lambda>s. sub_id s \<noteq> sid) (grp_subsidiaries g)) (parentGroups st)"
    using found
    by (simp add: deleteSubsidiary_def Let_def filter_length_eq split: option.splits)
  have "subsidiaries (deleteSubsidiary sid st)
          = concat (map (\<lambda>g. filter (\<lambda>s. sub_id s \<noteq> sid) (grp_subsidiaries g)) (parentGroups st))"
    unfolding subsidiaries_def subsidiariesOf_def groups ..
  then have gone: "sid \<notin> sub_id ` set (subsidiaries (deleteSubsidiary sid st))"
    by auto
  have rest: "activityLogs (deleteSubsidiary sid st)
           = filter (\<lambda>l. log_subsidiaryId l \<noteq> sid
                          \<and> log_factoryId l \<notin> fac_id ` set (sub_factories removed))
               (activityLogs st)
     \<and> selectedEntity (deleteSubsidiary sid st)
           = (case selectedEntity st of
                None \<Rightarrow> None
              | Some sel \<Rightarrow>
                  if referencesSubsidiary sel sid
                  then (if sub_parentGroupId removed \<noteq> []
                        then Some (parentSelection (sub_parentGroupId removed)) else None)
                  else Some sel)
     \<and> mapViewMode (deleteSubsidiary sid st)
           = (case selectedEntity st of
                None \<Rightarrow> mapViewMode st
              | Some sel \<Rightarrow>
                  if referencesSubsidiary sel sid \<and> sub_parentGroupId removed \<noteq> []
                  then Parent else mapViewMode st)"
    using found
    by (simp add: deleteSubsidiary_def Let_def referencesSubsidiary_def parentSelection_def
        truthyStr_def split: option.splits)
  show ?thesis
    using groups gone rest by simp
qed

theorem deleteSubsidiary_effects_witness:
  "find (\<lambda>s. sub_id s = ''s1'') (subsidiaries (exampleStore\<lparr>selectedEntity := Some selectS1\<rparr>))
     = Some exampleS1
   \<and> map grp_subsidiaries
       (parentGroups (deleteSubsidiary ''s1'' (exampleStore\<lparr>selectedEntity := Some selectS1\<rparr>)))
     = [[exampleS2]]
   \<and> activityLogs (deleteSubsidiary ''s1'' (exampleStore\<lparr>selectedEntity := Some selectS1\<rparr>))
     = [exampleLog ''c'' ''f9'' ''s2'' 100]
   \<and> selectedEntity (deleteSubsidiary ''s1'' (exampleStore\<lparr>selectedEntity := Some selectS1\<rparr>))
     = Some (parentSelection ''g1'')
   \<and> mapViewMode (deleteSubsidiary ''s1'' (exampleStore\<lparr>selectedEntity := Some selectS1\<rparr>))
     = Parent"
proof -
  have f: "find (\<lambda>s. sub_id s = ''s1'')
             (subsidiaries (exampleStore\<lparr>selectedEntity := Some selectS1\<rparr>)) = Some exampleS1"
    by (simp add: subsidiaries_def subsidiariesOf_def exampleStore_def exampleG1_def exampleS1_def)
  show ?thesis
    using f deleteSubsidiary_effects [OF f]
    by (simp add: exampleStore_def exampleG1_def exampleS1_def exampleS2_def exampleF1_def
        exampleF2_def exampleLog_def selectS1_def referencesSubsidiary_def)
qed


section \<open>Properties: writes whose target is missing\<close>











section \<open>Properties: activity log\<close>

lemma arraySort_Cons: "arraySort cmp (x # xs) = insertBy cmp x (arraySort cmp xs)"
  by (simp add: arraySort_def)

lemma mset_insertBy: "mset (insertBy cmp x xs) = add_mset x (mset xs)"
  by (induction xs) auto

lemma mset_arraySort: "mset (arraySort cmp xs) = mset xs"
proof (induction xs)
  case Nil
  show ?case by (simp add: arraySort_def)
next
  case (Cons x xs)
  then show ?case by (simp add: arraySort_Cons mset_insertBy)
qed

lemma set_arraySort: "set (arraySort cmp xs) = set xs"
  using mset_arraySort [of cmp xs] by (metis set_mset_mset)

lemma length_arraySort: "length (arraySort cmp xs) = length xs"
  using mset_arraySort [of cmp xs] by (metis size_mset)

lemma set_insertBy: "set (insertBy cmp x xs) = insert x (set xs)"
  using mset_insertBy [of cmp x xs] by (metis set_mset_mset set_mset_add_mset_insert)

lemma sorted_insertBy:
  fixes k :: "'a \<Rightarrow> int"
  assumes cmp: "\<And>b. b \<in> set xs \<Longrightarrow> jgt (cmp x b) (Fin 0) = (k x < k b)"
    and srt: "sorted_wrt (\<lambda>a b. k b \<le> k a) xs"
  shows "sorted_wrt (\<lambda>a b. k b \<le> k a) (insertBy cmp x xs)"
  using assms
proof (induction xs)
  case Nil
  then show ?case by simp
next
  case (Cons y ys)
  show ?case
  proof (cases "k x < k y")
    case True
    have "sorted_wrt (\<lambda>a b. k b \<le> k a) (insertBy cmp x ys)"
      using Cons by simp
    then show ?thesis
      using True Cons.prems by (auto simp: set_insertBy)
  next
    case False
    then show ?thesis
      using Cons.prems by fastforce
  qed
qed

lemma sorted_arraySort:
  fixes k :: "'a \<Rightarrow> int"
  assumes cmp: "\<And>a b. a \<in> set xs \<Longrightarrow> b \<in> set xs \<Longrightarrow> jgt (cmp a b) (Fin 0) = (k a < k b)"
  shows "sorted_wrt (\<lambda>a b. k b \<le> k a) (arraySort cmp xs)"
  using assms
proof (induction xs)
  case Nil
  show ?case by (simp add: arraySort_def)
next
  case (Cons x xs)
  have "sorted_wrt (\<lambda>a b. k b \<le> k a) (arraySort cmp xs)"
    using Cons by simp
  then show ?case
    unfolding arraySort_Cons
    by (rule sorted_insertBy [rotated]) (simp add: Cons.prems set_arraySort)
qed

lemma sorted_wrt_take_keep: "sorted_wrt R xs \<Longrightarrow> sorted_wrt R (take n xs)"
  by (induction xs arbitrary: n) (auto simp: take_Cons' dest: in_set_takeD)

lemma compareLogs_valid:
  assumes "hasValidTime pd a" "hasValidTime pd b"
  shows "jgt (compareLogs pd a b) (Fin 0) = (timeOf pd a < timeOf pd b)"
  using assms
  by (auto simp: hasValidTime_def timeOf_def compareLogs_def jgt_def jsub_def Let_def
      split: jsdate.splits)

lemma mset_single_list: "mset xs = {#a#} \<Longrightarrow> xs = [a]"
  by (cases xs) auto

lemma filter_take_prefix: "\<exists>k. filter P (take n xs) = take k (filter P xs)"
proof (induction xs arbitrary: n)
  case Nil
  then show ?case by simp
next
  case (Cons x xs)
  show ?case
  proof (cases n)
    case 0
    then show ?thesis by (intro exI [of _ 0]) simp
  next
    case (Suc m)
    obtain k where k: "filter P (take m xs) = take k (filter P xs)"
      using Cons.IH by blast
    show ?thesis
    proof (cases "P x")
      case True
      then show ?thesis
        using Suc k by (intro exI [of _ "Suc k"]) simp
    next
      case False
      then show ?thesis
        using Suc k by (intro exI [of _ k]) simp
    qed
  qed
qed

lemma example_sort_tie:
  "activityLogs (addActivityLog noDateParser exampleTie exampleStore)
     = [exampleTie, exampleLog ''a'' ''f1'' ''s1'' 300, exampleLog ''b'' ''f2'' ''s1'' 200,
        exampleLog ''c'' ''f9'' ''s2'' 100]"
  by (simp add: addActivityLog_def exampleStore_def exampleTie_def exampleLog_def arraySort_def
      compareLogs_def toDate_def jsub_def jgt_def Let_def)

text \<open>
  Claim C2, as stated, fails in its ordering part: a new entry for another factory with
  the timestamp of the newest stored entry gives a list with two equal timestamps at
  the head, which is not strictly descending.
\<close>

theorem addActivityLog_strict_counterexample:
  "map (timeOf noDateParser) (activityLogs (addActivityLog noDateParser exampleTie exampleStore))
     = [300, 300, 200, 100]
   \<and> \<not> strictlyNewestFirst noDateParser
         (activityLogs (addActivityLog noDateParser exampleTie exampleStore))"
  unfolding example_sort_tie
  by (simp add: strictlyNewestFirst_def timeOf_def toDate_def exampleTie_def exampleLog_def)

text \<open>
  Claim C2, amended.  After \<^verbatim>\<open>addActivityLog\<close> the list has at most 40 entries; its only
  entry with the factory id of the new entry is the new entry itself (every prior entry
  of that factory is gone; the new entry is there unless the cap cut it off, which
  cannot happen when the list held fewer than 40 entries); every entry is the new one
  or an old one; and when every timestamp, string or date, denotes a valid date, the
  list is ordered newest first, entries of equal time allowed.
\<close>

theorem addActivityLog_result:
  "(let result = activityLogs (addActivityLog parseDate newLog st)
    in length result \<le> 40
       \<and> filter (\<lambda>l. log_factoryId l = log_factoryId newLog) result
           = (if newLog \<in> set result then [newLog] else [])
       \<and> set result \<subseteq> insert newLog (set (activityLogs st))
       \<and> (length (activityLogs st) < 40 \<longrightarrow> newLog \<in> set result)
       \<and> ((\<forall>l \<in> set (newLog # activityLogs st). hasValidTime parseDate l)
            \<longrightarrow> newestFirst parseDate result))"
proof -
  define P :: "activityLog \<Rightarrow> bool" where "P = (\<lambda>l. log_factoryId l = log_factoryId newLog)"
  define kept where "kept = filter (\<lambda>l. log_factoryId l \<noteq> log_factoryId newLog) (activityLogs st)"
  define srtd where "srtd = arraySort (compareLogs parseDate) (newLog # kept)"
  define result where "result = take 40 srtd"
  have res: "activityLogs (addActivityLog parseDate newLog st) = result"
    by (simp add: addActivityLog_def Let_def result_def srtd_def kept_def)
  have len: "length result \<le> 40"
    by (simp add: result_def)
  have "mset (filter P srtd) = {#newLog#}"
    by (simp add: srtd_def mset_arraySort P_def kept_def filter_mset_False)
  then have one: "filter P srtd = [newLog]"
    by (rule mset_single_list)
  obtain k where k: "filter P result = take k (filter P srtd)"
    unfolding result_def using filter_take_prefix by blast
  have dedupe: "filter P result = (if newLog \<in> set result then [newLog] else [])"
  proof (cases k)
    case 0
    then have "filter P result = []"
      using k by simp
    moreover have "P newLog"
      by (simp add: P_def)
    ultimately have "newLog \<notin> set result"
      by (metis filter_empty_conv)
    then show ?thesis
      using \<open>filter P result = []\<close> by simp
  next
    case (Suc j)
    then have f: "filter P result = [newLog]"
      using k one by simp
    then have "newLog \<in> set (filter P result)"
      by simp
    then have "newLog \<in> set result"
      by simp
    then show ?thesis
      using f by simp
  qed
  have sub: "set result \<subseteq> insert newLog (set (activityLogs st))"
    unfolding result_def srtd_def kept_def
    using set_take_subset [of 40 "arraySort (compareLogs parseDate)
        (newLog # filter (\<lambda>l. log_factoryId l \<noteq> log_factoryId newLog) (activityLogs st))"]
    by (auto simp: set_arraySort)
  have room: "newLog \<in> set result" if "length (activityLogs st) < 40"
  proof -
    have "length kept \<le> length (activityLogs st)"
      by (simp add: kept_def)
    then have "length srtd \<le> 40"
      using that by (simp add: srtd_def length_arraySort)
    then have "result = srtd"
      by (simp add: result_def)
    then show ?thesis
      by (simp add: srtd_def set_arraySort)
  qed
  have srt: "newestFirst parseDate result"
    if valid: "\<forall>l \<in> set (newLog # activityLogs st). hasValidTime parseDate l"
  proof -
    have "sorted_wrt (\<lambda>a b. timeOf parseDate b \<le> timeOf parseDate a) srtd"
      unfolding srtd_def
      by (rule sorted_arraySort) (use valid in \<open>auto simp: kept_def intro!: compareLogs_valid\<close>)
    then show ?thesis
      by (simp add: newestFirst_def result_def sorted_wrt_take_keep)
  qed
  show ?thesis
    using len dedupe sub room srt
    by (simp add: res Let_def P_def)
qed

theorem addActivityLog_result_witness:
  "hasValidTime noDateParser exampleNewer
   \<and> list_all (hasValidTime noDateParser) (activityLogs exampleStore)
   \<and> activityLogs (addActivityLog noDateParser exampleNewer exampleStore)
       = [exampleLog ''a'' ''f1'' ''s1'' 300, exampleNewer, exampleLog ''c'' ''f9'' ''s2'' 100]
   \<and> newestFirst noDateParser (activityLogs (addActivityLog noDateParser exampleNewer exampleStore))"
proof -
  have v: "\<forall>l \<in> set (exampleNewer # activityLogs exampleStore). hasValidTime noDateParser l"
    by (simp add: hasValidTime_def toDate_def exampleNewer_def exampleLog_def exampleStore_def)
  have r: "activityLogs (addActivityLog noDateParser exampleNewer exampleStore)
       = [exampleLog ''a'' ''f1'' ''s1'' 300, exampleNewer, exampleLog ''c'' ''f9'' ''s2'' 100]"
    by (simp add: addActivityLog_def exampleStore_def exampleNewer_def exampleLog_def
        arraySort_def compareLogs_def toDate_def jsub_def jgt_def Let_def)
  have "newestFirst noDateParser (activityLogs (addActivityLog noDateParser exampleNewer exampleStore))"
    using addActivityLog_result [of noDateParser exampleNewer exampleStore] v
    by (simp add: Let_def)
  then show ?thesis
    using v r by (simp add: list_all_iff)
qed


section \<open>Properties: metrics after a mutation\<close>

lemma jadd_zero [simp]: "jadd a (Fin 0) = a" "jadd (Fin 0) a = a"
  by (cases a; simp)+





















lemma parentGroups_consoleWarn [simp]: "parentGroups (consoleWarn w st) = parentGroups st"
  by (simp add: consoleWarn_def)

lemma factoryKnown_consoleWarn [simp]: "factoryKnown f (consoleWarn w st) = factoryKnown f st"
  by (simp add: factoryKnown_def cong: option.case_cong)

lemma subsidiaryKnown_consoleWarn [simp]:
  "subsidiaryKnown s (consoleWarn w st) = subsidiaryKnown s st"
  by (simp add: subsidiaryKnown_def cong: option.case_cong)

































section \<open>Properties: coordinates typed as text\<close>

lemma digit_facts:
  "isDigit c \<Longrightarrow> \<not> isSpace c \<and> c \<noteq> CHR ''.'' \<and> c \<noteq> CHR '','' \<and> c \<noteq> CHR ''-''"
  by (auto simp: isDigit_def isSpace_def)

lemma char_facts:
  "\<not> isDigit CHR ''.''" "\<not> isDigit CHR '',''" "\<not> isDigit CHR ''-''"
  "\<not> isSpace CHR ''.''" "\<not> isSpace CHR '',''" "\<not> isSpace CHR ''-''"
  by (simp_all add: isDigit_def isSpace_def)

lemma space_facts: "isSpace c \<Longrightarrow> \<not> isDigit c \<and> c \<noteq> CHR ''.'' \<and> c \<noteq> CHR '','' \<and> c \<noteq> CHR ''-''"
  by (auto simp: isDigit_def isSpace_def)

lemma dropWhile_blank_append:
  "list_all P pre \<Longrightarrow> ys \<noteq> [] \<Longrightarrow> \<not> P (hd ys) \<Longrightarrow> dropWhile P (pre @ ys) = ys"
  by (induction pre) (auto simp: neq_Nil_conv)

lemma takeWhile_run:
  "list_all P d \<Longrightarrow> rest = [] \<or> \<not> P (hd rest) \<Longrightarrow>
   takeWhile P (d @ rest) = d \<and> dropWhile P (d @ rest) = rest"
proof (induction d)
  case Nil
  then show ?case by (cases rest) auto
next
  case (Cons a d)
  then show ?case by simp
qed

lemma takeNumber_numeral:
  assumes s: "isSign s" and d: "isDigits d" and f: "isFraction f"
    and stop: "rest = [] \<or> (\<not> isDigit (hd rest) \<and> hd rest \<noteq> CHR ''.'')"
  shows "takeNumber (s @ d @ f @ rest) = Some (s @ d @ f, rest)"
proof -
  define dot where "dot = take 1 f"
  define fs where "fs = tl f"
  define tail3 where "tail3 = fs @ rest"
  define tail2 where "tail2 = f @ rest"
  define str where "str = s @ d @ tail2"
  obtain c cs where dc: "d = c # cs" "isDigit c"
    using d by (cases d) (auto simp: isDigits_def)
  have alld: "list_all isDigit d" and dne: "d \<noteq> []"
    using d by (simp_all add: isDigits_def)
  have sign: "(case str of [] \<Rightarrow> [] | x # xs \<Rightarrow> if x = CHR ''-'' then [x] else []) = s"
    using s dc digit_facts [of c] by (auto simp: str_def isSign_def)
  have r1: "drop (length s) str = d @ tail2"
    by (simp add: str_def)
  have fstop: "tail2 = [] \<or> \<not> isDigit (hd tail2)"
    using f stop by (cases f) (auto simp: tail2_def isFraction_def char_facts)
  have run1: "takeWhile isDigit (d @ tail2) = d" "dropWhile isDigit (d @ tail2) = tail2"
    using takeWhile_run [OF alld fstop] by simp_all
  have dotc: "(case tail2 of [] \<Rightarrow> [] | x # xs \<Rightarrow> if x = CHR ''.'' then [x] else []) = dot"
    using f stop by (cases f; cases rest) (auto simp: tail2_def dot_def isFraction_def)
  have r3: "drop (length dot) tail2 = tail3"
    by (cases f) (auto simp: dot_def tail2_def tail3_def fs_def)
  have tlf: "list_all isDigit fs"
    using f by (cases f) (auto simp: fs_def isFraction_def)
  have rstop: "rest = [] \<or> \<not> isDigit (hd rest)"
    using stop by auto
  have run2: "takeWhile isDigit tail3 = fs" "dropWhile isDigit tail3 = rest"
    using takeWhile_run [OF tlf rstop] by (simp_all add: tail3_def)
  have whole: "dot @ fs = f"
    by (cases f) (auto simp: dot_def fs_def)
  have "takeNumber str = Some (s @ d @ f, rest)"
    by (simp add: takeNumber_def Let_def sign r1 run1 dne dotc r3 run2 whole)
  then show ?thesis
    by (simp add: str_def tail2_def)
qed

lemma numeral_ends:
  assumes s: "isSign s" and d: "isDigits d" and f: "isFraction f"
  shows "s @ d @ f \<noteq> [] \<and> \<not> isSpace (hd (s @ d @ f)) \<and> \<not> isSpace (last (s @ d @ f))"
proof -
  obtain c cs where dc: "d = c # cs" "isDigit c"
    using d by (cases d) (auto simp: isDigits_def)
  have "isDigit (last d)"
    using d by (metis isDigits_def last_in_set list_all_iff)
  then have lastd: "\<not> isSpace (last d)"
    using digit_facts by blast
  have hd: "\<not> isSpace (hd (s @ d @ f))"
    using s dc digit_facts [of c] by (auto simp: isSign_def char_facts)
  have lst: "\<not> isSpace (last (s @ d @ f))"
  proof (cases f rule: rev_cases)
    case Nil
    then show ?thesis
      using lastd dc(1) by simp
  next
    case (snoc fs q)
    have "q = CHR ''.'' \<or> isDigit q"
    proof (cases fs)
      case Nil
      then show ?thesis
        using f snoc by (simp add: isFraction_def)
    next
      case (Cons a as)
      then have "q \<in> set (tl f)"
        using snoc by simp
      then show ?thesis
        using f snoc by (auto simp: isFraction_def list_all_iff)
    qed
    then show ?thesis
      using snoc digit_facts [of q] by (auto simp: char_facts)
  qed
  show ?thesis
    using hd lst dc(1) by simp
qed

lemma matchCoordinates_pattern:
  assumes "isSign s1" "isDigits d1" "isFraction f1" "isBlank w1" "isBlank w2"
    "isSign s2" "isDigits d2" "isFraction f2"
  shows "matchCoordinates ((s1 @ d1 @ f1) @ w1 @ CHR '','' # w2 @ (s2 @ d2 @ f2))
           = Some (s1 @ d1 @ f1, s2 @ d2 @ f2)"
proof -
  define n1 where "n1 = s1 @ d1 @ f1"
  define n2 where "n2 = s2 @ d2 @ f2"
  define rest where "rest = w1 @ CHR '','' # w2 @ n2"
  have stop: "rest = [] \<or> (\<not> isDigit (hd rest) \<and> hd rest \<noteq> CHR ''.'')"
    using assms(4) space_facts [of "hd w1"]
    by (cases w1) (auto simp: rest_def isBlank_def char_facts)
  have t1: "takeNumber (n1 @ rest) = Some (n1, rest)"
    using takeNumber_numeral [OF assms(1-3) stop] by (simp add: n1_def)
  have d1: "dropWhile isSpace rest = CHR '','' # w2 @ n2"
    unfolding rest_def
    using dropWhile_blank_append [of isSpace w1 "CHR '','' # w2 @ n2"] assms(4)
    by (simp add: isBlank_def char_facts)
  have n2: "n2 \<noteq> []" "\<not> isSpace (hd n2)"
    using numeral_ends [OF assms(6-8)] by (simp_all add: n2_def)
  have d2: "dropWhile isSpace (w2 @ n2) = n2"
    using dropWhile_blank_append [of isSpace w2 n2] assms(5) n2
    by (simp add: isBlank_def)
  have t2: "takeNumber n2 = Some (n2, [])"
    using takeNumber_numeral [OF assms(6-8), of "[]"] by (simp add: n2_def)
  have "matchCoordinates (n1 @ rest) = Some (n1, n2)"
    by (simp add: matchCoordinates_def t1 d1 d2 t2)
  then show ?thesis
    by (simp add: n1_def n2_def rest_def)
qed

lemma trim_blank:
  assumes "isBlank pre" "isBlank post" "x \<noteq> []" "\<not> isSpace (hd x)" "\<not> isSpace (last x)"
  shows "trim (pre @ x @ post) = x"
proof -
  have a: "dropWhile isSpace (pre @ x @ post) = x @ post"
    using dropWhile_blank_append [of isSpace pre "x @ post"] assms by (simp add: isBlank_def)
  have b: "dropWhile isSpace (rev post @ rev x) = rev x"
    using dropWhile_blank_append [of isSpace "rev post" "rev x"] assms
    by (simp add: isBlank_def hd_rev)
  show ?thesis
    by (simp add: trim_def a b)
qed

lemma inRange_checks:
  "(jge lat (Fin (- 90)) \<and> jle lat (Fin 90) \<and> jge lng (Fin (- 180)) \<and> jle lng (Fin 180))
     = inRange lat lng"
  by (cases lat; cases lng) (auto simp: inRange_def jle_def)

text \<open>
  Claim C7.  An input that, between optional white space at both ends, consists of a
  numeral, optional white space, a comma, optional white space and a numeral, is
  answered without any geocoding request: with the two numbers as \<^verbatim>\<open>parseFloat\<close> reads
  them when the first is within \<open>-90..90\<close> and the second within \<open>-180..180\<close>, and
  with the range error otherwise.  White space is every character that \<^verbatim>\<open>trim\<close> and
  \<^verbatim>\<open>\s\<close> take for one, the no-break space included.  The witness is the pair of
  examples of the specification, \<^verbatim>\<open>"45.0, -73.0"\<close> and \<^verbatim>\<open>"200, 0"\<close>, and an input
  that starts with a no-break space.
\<close>

theorem parseLocationInput_coordinates:
  assumes "isBlank pre" "isSign s1" "isDigits d1" "isFraction f1" "isBlank w1" "isBlank w2"
    "isSign s2" "isDigits d2" "isFraction f2" "isBlank post"
  shows "parseLocationInput parseFloat geocode
           (pre @ ((s1 @ d1 @ f1) @ w1 @ CHR '','' # w2 @ (s2 @ d2 @ f2)) @ post)
         = (if inRange (parseFloat (s1 @ d1 @ f1)) (parseFloat (s2 @ d2 @ f2))
            then Inr \<lparr>latitude = parseFloat (s1 @ d1 @ f1),
                      longitude = parseFloat (s2 @ d2 @ f2)\<rparr>
            else Inl InvalidCoordinatesRange,
            [])"
proof -
  define n1 where "n1 = s1 @ d1 @ f1"
  define n2 where "n2 = s2 @ d2 @ f2"
  define x where "x = n1 @ w1 @ CHR '','' # w2 @ n2"
  have n1: "n1 \<noteq> []" "\<not> isSpace (hd n1)"
    using numeral_ends [OF assms(2-4)] by (simp_all add: n1_def)
  have n2: "n2 \<noteq> []" "\<not> isSpace (last n2)"
    using numeral_ends [OF assms(7-9)] by (simp_all add: n2_def)
  have x: "x \<noteq> []" "\<not> isSpace (hd x)" "\<not> isSpace (last x)"
    using n1 n2 by (simp_all add: x_def)
  have t: "trim (pre @ x @ post) = x"
    using trim_blank [OF assms(1) assms(10) x] .
  have m: "matchCoordinates x = Some (n1, n2)"
    using matchCoordinates_pattern [OF assms(2-9)] by (simp add: x_def n1_def n2_def)
  have "parseLocationInput parseFloat geocode (pre @ x @ post)
         = (if inRange (parseFloat n1) (parseFloat n2)
            then Inr \<lparr>latitude = parseFloat n1, longitude = parseFloat n2\<rparr>
            else Inl InvalidCoordinatesRange,
            [])"
    by (simp add: parseLocationInput_def t m inRange_checks)
  then show ?thesis
    by (simp add: x_def n1_def n2_def)
qed

theorem parseLocationInput_coordinates_witness:
  "parseLocationInput parseFloatExact unusedGeocoder ''45.0, -73.0''
     = (Inr \<lparr>latitude = Fin 45, longitude = Fin (- 73)\<rparr>, [])
   \<and> parseLocationInput parseFloatExact unusedGeocoder ''200, 0''
     = (Inl InvalidCoordinatesRange, [])
   \<and> parseLocationInput parseFloatExact unusedGeocoder (CHR 0xA0 # ''45,10'')
     = (Inr \<lparr>latitude = Fin 45, longitude = Fin 10\<rparr>, [])"
proof -
  have blank: "isBlank []" "isBlank '' ''" "isBlank [CHR 0xA0]"
    by (simp_all add: isBlank_def isSpace_def)
  have sign: "isSign []" "isSign ''-''"
    by (simp_all add: isSign_def)
  have digits: "isDigits ''45''" "isDigits ''73''" "isDigits ''200''" "isDigits ''0''"
    "isDigits ''10''"
    by (simp_all add: isDigits_def isDigit_def)
  have frac: "isFraction ''.0''" "isFraction []"
    by (simp_all add: isFraction_def isDigit_def)
  have v: "parseFloatExact ''45.0'' = Fin 45" "parseFloatExact ''-73.0'' = Fin (- 73)"
    "parseFloatExact ''200'' = Fin 200" "parseFloatExact ''0'' = Fin 0"
    "parseFloatExact ''45'' = Fin 45" "parseFloatExact ''10'' = Fin 10"
    by (simp_all add: parseFloatExact_def isDigit_def Let_def digitsToNat_def)
  have a: "parseLocationInput parseFloatExact unusedGeocoder ''45.0, -73.0''
     = (Inr \<lparr>latitude = Fin 45, longitude = Fin (- 73)\<rparr>, [])"
    using parseLocationInput_coordinates [OF blank(1) sign(1) digits(1) frac(1) blank(1) blank(2)
        sign(2) digits(2) frac(1) blank(1), of parseFloatExact unusedGeocoder]
    by (simp add: v inRange_def)
  have b: "parseLocationInput parseFloatExact unusedGeocoder ''200, 0''
     = (Inl InvalidCoordinatesRange, [])"
    using parseLocationInput_coordinates [OF blank(1) sign(1) digits(3) frac(2) blank(1) blank(2)
        sign(1) digits(4) frac(2) blank(1), of parseFloatExact unusedGeocoder]
    by (simp add: v inRange_def)
  have c: "parseLocationInput parseFloatExact unusedGeocoder (CHR 0xA0 # ''45,10'')
     = (Inr \<lparr>latitude = Fin 45, longitude = Fin 10\<rparr>, [])"
    using parseLocationInput_coordinates [OF blank(3) sign(1) digits(1) frac(2) blank(1) blank(1)
        sign(1) digits(5) frac(2) blank(1), of parseFloatExact unusedGeocoder]
    by (simp add: v inRange_def)
  show ?thesis
    using a b c by simp
qed

end
